theory Spec2Isabelle
  imports Main
begin

section \<open>Strings\<close>

text \<open>
  A JavaScript string is its sequence of UTF-16 code units. The literals of the source are
  written with \<open>ascii\<close> where they are ASCII and as code units where they are Korean.
\<close>

type_synonym jsstring = "nat list"

definition ascii :: "string \<Rightarrow> jsstring" where
  "ascii s = map of_char s"

text \<open>\<^verbatim>\<open>String.prototype.trim\<close>: strips WhiteSpace and LineTerminator code units at both ends.\<close>

definition js_whitespace :: "nat \<Rightarrow> bool" where
  "js_whitespace c \<longleftrightarrow>
     c \<in> {0x09, 0x0A, 0x0B, 0x0C, 0x0D, 0x20, 0xA0, 0x1680, 0x2028, 0x2029, 0x202F, 0x205F,
          0x3000, 0xFEFF}
     \<or> (0x2000 \<le> c \<and> c \<le> 0x200A)"

definition js_trim :: "jsstring \<Rightarrow> jsstring" where
  "js_trim s = rev (dropWhile js_whitespace (rev (dropWhile js_whitespace s)))"

definition startsWith :: "jsstring \<Rightarrow> jsstring \<Rightarrow> bool" where
  "startsWith s p \<longleftrightarrow> take (length p) s = p"

text \<open>\<^verbatim>\<open>s.replace(/```$/, '')\<close>: removes the suffix when the string ends with it.\<close>

definition strip_suffix :: "jsstring \<Rightarrow> jsstring \<Rightarrow> jsstring" where
  "strip_suffix p s =
     (if length p \<le> length s \<and> drop (length s - length p) s = p
      then take (length s - length p) s else s)"

text \<open>
  The template literal \<^verbatim>\<open>${n}\<close> of a non-negative integer below \<open>10^21\<close>: its decimal
  digits. Loop counters and \<^verbatim>\<open>Date.now()\<close> are such numbers.
\<close>

fun decimal :: "nat \<Rightarrow> jsstring" where
  "decimal n = (if n < 10 then [48 + n] else decimal (n div 10) @ [48 + n mod 10])"

declare decimal.simps [simp del]

text \<open>
  \<^verbatim>\<open>a.localeCompare(b)\<close>, as a sign, on the strings that the program compares with it:
  ids, made of decimal digits and underscores. On these the locale's collation compares
  character by character, the underscore before every digit and the digits in their
  order, a proper prefix coming first. On other strings (letters, accents, case) the
  collation is not modelled.
\<close>

definition collation_weight :: "nat \<Rightarrow> nat" where
  "collation_weight c = (if c = 95 then 0 else c)"

fun localeCompare :: "jsstring \<Rightarrow> jsstring \<Rightarrow> int" where
  "localeCompare [] [] = 0"
| "localeCompare [] (y # ys) = - 1"
| "localeCompare (x # xs) [] = 1"
| "localeCompare (x # xs) (y # ys) =
     (if collation_weight x < collation_weight y then - 1
      else if collation_weight y < collation_weight x then 1
      else localeCompare xs ys)"

text \<open>
  \<^verbatim>\<open>Array.prototype.sort(cmp)\<close>: a stable sort (ECMAScript 2019), here by insertion.
\<close>

fun insert_by :: "('a \<Rightarrow> 'a \<Rightarrow> int) \<Rightarrow> 'a \<Rightarrow> 'a list \<Rightarrow> 'a list" where
  "insert_by cmp x [] = [x]"
| "insert_by cmp x (y # ys) = (if cmp x y \<le> 0 then x # y # ys else y # insert_by cmp x ys)"

definition sort_by :: "('a \<Rightarrow> 'a \<Rightarrow> int) \<Rightarrow> 'a list \<Rightarrow> 'a list" where
  "sort_by cmp xs = foldr (insert_by cmp) xs []"

section \<open>Data model (types.ts)\<close>

datatype Status = Success | Failed

datatype AspectRatio = Ratio_1_1 | Ratio_16_9 | Ratio_9_16 | Ratio_4_3 | Ratio_3_4

text \<open>The field \<^verbatim>\<open>id\<close> is \<open>id'\<close> here; optional fields are options.\<close>

record GeneratedImage =
  id' :: jsstring
  originalInput :: jsstring
  refinedPrompt :: jsstring
  suggestedPrompt :: "jsstring option"
  sceneSummary :: "jsstring option"
  imageUrl :: jsstring
  timestamp :: nat
  aspectRatio :: AspectRatio
  batchId :: "jsstring option"
  status :: Status

datatype LoadingStatus = Idle | Analyzing | Generating | Error | Done

text \<open>\<open>Done\<close> is the loading status \<^verbatim>\<open>'success'\<close>; the field \<^verbatim>\<open>status\<close> is \<open>lstatus\<close>.\<close>

record LoadingState =
  lstatus :: LoadingStatus
  current :: "nat option"
  total :: "nat option"
  message :: "jsstring option"

record SceneBlueprint =
  scene_number :: int
  korean_summary :: jsstring
  english_prompt :: jsstring

section \<open>The provider calls (services/geminiService.ts)\<close>

text \<open>
  An awaited provider call either throws (\<open>Rejects\<close>: no API key in \<^verbatim>\<open>getAi\<close>, or the
  request fails) or returns a response. The provider is not a function of the prompt (a
  retry of the same prompt may succeed), so each call is given its reply. A field of the
  response that the code only tests for truthiness is an option (\<open>None\<close> for
  \<^verbatim>\<open>undefined\<close> and for \<^verbatim>\<open>null\<close>); the two fields that it interpolates are a
  \<open>js_field\<close>, which tells \<^verbatim>\<open>undefined\<close> (\<open>Missing\<close>) from \<^verbatim>\<open>null\<close>.
\<close>

datatype 'a reply = Rejects | Resolves 'a

datatype 'a js_field = Missing | Null | Present 'a

datatype InlineData = InlineData (data: "jsstring js_field") (mimeType: "jsstring js_field")
datatype Part = Part (inlineData: "InlineData option")
datatype Content = Content (parts: "Part list option")
datatype Candidate = Candidate (content: "Content option")
datatype ImageResponse = ImageResponse (candidates: "Candidate list option")
datatype TextResponse = TextResponse (response_text: "jsstring option")

text \<open>
  What \<^verbatim>\<open>JSON.parse\<close> returns: an array, one object, or a value that is neither (a
  number, a string, a boolean, null). The code returns an array without looking at its
  elements, so an element may be \<^verbatim>\<open>null\<close> (\<open>None\<close>), on which every property read
  throws a TypeError. An element that is not \<^verbatim>\<open>null\<close>, and a single object, is read
  through the cast \<^verbatim>\<open>parsed as SceneBlueprint[]\<close>, with the string fields that the
  response schema requires. \<^verbatim>\<open>JSON.parse\<close> itself is a parameter \<open>parse\<close> of the
  model, \<open>None\<close> when it throws.
\<close>

datatype parsed = PArray "SceneBlueprint option list" | PObject SceneBlueprint | PPrimitive

definition cleanJson :: "jsstring \<Rightarrow> jsstring" where
  "cleanJson txt =
     (let clean = js_trim txt in
      js_trim
        (if startsWith clean (ascii ''```json'') then strip_suffix (ascii ''```'') (drop 7 clean)
         else if startsWith clean (ascii ''```'') then strip_suffix (ascii ''```'') (drop 3 clean)
         else clean))"

definition single_scene :: jsstring where
  "single_scene = [45800, 51068, 32, 51109, 47732]"

definition fallback_scene :: "jsstring \<Rightarrow> SceneBlueprint" where
  "fallback_scene userInput =
     \<lparr>scene_number = 1, korean_summary = single_scene, english_prompt = userInput\<rparr>"

text \<open>The \<^verbatim>\<open>try\<close> block of \<^verbatim>\<open>analyzeScript\<close>; \<open>None\<close> when it throws.\<close>

definition analyze_try ::
  "(jsstring \<Rightarrow> parsed option) \<Rightarrow> TextResponse reply \<Rightarrow> SceneBlueprint option list option"
  where
  "analyze_try parse r =
     (case r of
        Rejects \<Rightarrow> None
      | Resolves response \<Rightarrow>
          (case response_text response of
             None \<Rightarrow> None
           | Some t \<Rightarrow>
               if t = [] then None
               else (case parse (cleanJson t) of
                       None \<Rightarrow> None
                     | Some (PArray scenes) \<Rightarrow> Some scenes
                     | Some (PObject scene) \<Rightarrow> Some [Some scene]
                     | Some PPrimitive \<Rightarrow> None)))"

definition analyzeScript ::
  "(jsstring \<Rightarrow> parsed option) \<Rightarrow> TextResponse reply \<Rightarrow> jsstring
   \<Rightarrow> SceneBlueprint option list" where
  "analyzeScript parse r userInput =
     (case analyze_try parse r of
        Some scenes \<Rightarrow> scenes
      | None \<Rightarrow> [Some (fallback_scene userInput)])"

definition data_url :: "InlineData \<Rightarrow> jsstring" where
  "data_url d =
     ascii ''data:''
     @ (case mimeType d of
          Present m \<Rightarrow> if m = [] then ascii ''image/png'' else m
        | _ \<Rightarrow> ascii ''image/png'')
     @ ascii '';base64,''
     @ (case data d of
          Missing \<Rightarrow> ascii ''undefined''
        | Null \<Rightarrow> ascii ''null''
        | Present b \<Rightarrow> b)"

text \<open>The loop over the parts, left at the first part that has inline data.\<close>

fun first_inline :: "Part list \<Rightarrow> jsstring" where
  "first_inline [] = []"
| "first_inline (p # ps) =
     (case inlineData p of None \<Rightarrow> first_inline ps | Some d \<Rightarrow> data_url d)"

text \<open>
  The extraction of the image; \<open>None\<close> is the TypeError of reading
  \<^verbatim>\<open>candidates[0].content.parts\<close> off a missing candidate or content.
\<close>

definition extract_image :: "ImageResponse \<Rightarrow> jsstring option" where
  "extract_image response =
     (case candidates response of
        None \<Rightarrow> Some []
      | Some [] \<Rightarrow> None
      | Some (c # cs) \<Rightarrow>
          (case content c of
             None \<Rightarrow> None
           | Some ct \<Rightarrow>
               (case parts ct of None \<Rightarrow> Some [] | Some ps \<Rightarrow> Some (first_inline ps))))"

text \<open>
  \<^verbatim>\<open>generateImage\<close>: \<open>None\<close> is its one thrown Error, \<open>Some url\<close> the returned data URI.
\<close>

definition generateImage :: "ImageResponse reply \<Rightarrow> jsstring option" where
  "generateImage r =
     (case r of
        Rejects \<Rightarrow> None
      | Resolves response \<Rightarrow>
          (case extract_image response of
             None \<Rightarrow> None
           | Some url \<Rightarrow> if url = [] then None else Some url))"

text \<open>\<^verbatim>\<open>getPromptFix\<close>: \<^verbatim>\<open>response.text?.trim() || originalPrompt\<close>, and never a throw.\<close>

definition getPromptFix :: "TextResponse reply \<Rightarrow> jsstring \<Rightarrow> jsstring" where
  "getPromptFix r originalPrompt =
     (case r of
        Rejects \<Rightarrow> originalPrompt
      | Resolves response \<Rightarrow>
          (case response_text response of
             None \<Rightarrow> originalPrompt
           | Some t \<Rightarrow> if js_trim t = [] then originalPrompt else js_trim t))"

section \<open>Application state and its updates (App.tsx)\<close>

record AppState =
  loadingState :: LoadingState
  currentBatch :: "GeneratedImage list"
  history :: "GeneratedImage list"
  errorMsg :: "jsstring option"
  retryingIds :: "jsstring set"

text \<open>
  What a handler does, in program order: the state setters it calls and the provider calls
  and delays it awaits. \<open>PrependHistory x\<close> is \<^verbatim>\<open>setHistory(prev => [x, ...prev])\<close>,
  \<open>ReplaceInBatch x\<close> is \<^verbatim>\<open>setCurrentBatch(prev => prev.map(img => img.id === x.id ? x : img))\<close>,
  \<open>FilterHistory i\<close> and \<open>FilterBatch i\<close> are the two filters of \<^verbatim>\<open>handleDelete\<close>.
\<close>

datatype effect =
    SetLoadingState LoadingState
  | SetErrorMsg "jsstring option"
  | SetCurrentBatch "GeneratedImage list"
  | PrependHistory GeneratedImage
  | ReplaceInBatch GeneratedImage
  | FilterHistory jsstring
  | FilterBatch jsstring
  | AddRetrying jsstring
  | DeleteRetrying jsstring
  | AnalyzeCall jsstring
  | RenderCall jsstring AspectRatio
  | FixCall jsstring
  | Delay nat

fun apply_effect :: "effect \<Rightarrow> AppState \<Rightarrow> AppState" where
  "apply_effect (SetLoadingState l) st = st\<lparr>loadingState := l\<rparr>"
| "apply_effect (SetErrorMsg m) st = st\<lparr>errorMsg := m\<rparr>"
| "apply_effect (SetCurrentBatch b) st = st\<lparr>currentBatch := b\<rparr>"
| "apply_effect (PrependHistory x) st = st\<lparr>history := x # history st\<rparr>"
| "apply_effect (ReplaceInBatch x) st =
     st\<lparr>currentBatch := map (\<lambda>img. if id' img = id' x then x else img) (currentBatch st)\<rparr>"
| "apply_effect (FilterHistory i) st = st\<lparr>history := filter (\<lambda>item. id' item \<noteq> i) (history st)\<rparr>"
| "apply_effect (FilterBatch i) st =
     st\<lparr>currentBatch := filter (\<lambda>item. id' item \<noteq> i) (currentBatch st)\<rparr>"
| "apply_effect (AddRetrying i) st = st\<lparr>retryingIds := insert i (retryingIds st)\<rparr>"
| "apply_effect (DeleteRetrying i) st = st\<lparr>retryingIds := retryingIds st - {i}\<rparr>"
| "apply_effect (AnalyzeCall t) st = st"
| "apply_effect (RenderCall p a) st = st"
| "apply_effect (FixCall p) st = st"
| "apply_effect (Delay ms) st = st"

definition run_effects :: "effect list \<Rightarrow> AppState \<Rightarrow> AppState" where
  "run_effects es st = fold apply_effect es st"

subsection \<open>handleGenerate\<close>

text \<open>
  What one run of \<^verbatim>\<open>handleGenerate\<close> reads from outside: \<^verbatim>\<open>JSON.parse\<close>, the value of
  \<^verbatim>\<open>Date.now()\<close> at the start, the analyzer's reply, for the scene at loop index \<open>i\<close>
  the renderer's reply, the repair call's reply and \<^verbatim>\<open>Date.now()\<close> when its record is
  built, and the \<^verbatim>\<open>message\<close> that the engine gives the TypeError of a property read on
  \<^verbatim>\<open>null\<close>.
\<close>

record Env =
  parse :: "jsstring \<Rightarrow> parsed option"
  startTime :: nat
  analysisReply :: "TextResponse reply"
  renderReply :: "nat \<Rightarrow> ImageResponse reply"
  fixReply :: "nat \<Rightarrow> TextResponse reply"
  clock :: "nat \<Rightarrow> nat"
  typeErrorMessage :: jsstring

definition msg_analyzing :: jsstring where
  "msg_analyzing =
     [51060, 50556, 44592, 47484, 32, 48516, 49437, 54616, 44256, 32, 51109, 47732, 51012, 32,
      45208, 45572, 44256, 32, 51080, 49845, 45768, 45796, 46, 46, 46]"

definition msg_ready :: "nat \<Rightarrow> jsstring" where
  "msg_ready n =
     [52509, 32] @ decimal n
     @ [44060, 51032, 32, 51109, 47732, 51012, 32, 49373, 49457, 54624, 32, 51456, 48708, 44032,
        32, 46104, 50632, 49845, 45768, 45796, 46]"

definition msg_drawing :: "nat \<Rightarrow> nat \<Rightarrow> jsstring \<Rightarrow> jsstring" where
  "msg_drawing k n summary =
     [51109, 47732, 32] @ decimal k @ ascii '' / '' @ decimal n
     @ [32, 44536, 47532, 45716, 32, 51473, 46, 46, 46, 32, 40] @ summary @ ascii '')''"

definition msg_retry_failed :: jsstring where
  "msg_retry_failed =
     [51116, 49884, 46020, 50640, 32, 49892, 54056, 54664, 49845, 45768, 45796, 46, 32, 51104,
      49884, 32, 54980, 32, 45796, 49884, 32, 49884, 46020, 54644, 51452, 49464, 50836, 46]"

definition msg_unknown :: jsstring where
  "msg_unknown =
     [50508, 32, 49688, 32, 50630, 45716, 32, 50724, 47448, 44032, 32, 48156, 49373, 54664,
      49845, 45768, 45796, 46]"

text \<open>\<^verbatim>\<open>`${batchId}_${i}`\<close>\<close>

definition mk_id :: "jsstring \<Rightarrow> nat \<Rightarrow> jsstring" where
  "mk_id b i = b @ ascii ''_'' @ decimal i"

definition newImage ::
  "Env \<Rightarrow> jsstring \<Rightarrow> AspectRatio \<Rightarrow> nat \<Rightarrow> SceneBlueprint \<Rightarrow> jsstring \<Rightarrow> GeneratedImage" where
  "newImage env inputText ar i scene url =
     \<lparr>id' = mk_id (decimal (startTime env)) i,
      originalInput = inputText,
      refinedPrompt = english_prompt scene,
      suggestedPrompt = None,
      sceneSummary = Some (korean_summary scene),
      imageUrl = url,
      timestamp = clock env i,
      aspectRatio = ar,
      batchId = Some (decimal (startTime env)),
      status = Success\<rparr>"

definition failedImage ::
  "Env \<Rightarrow> jsstring \<Rightarrow> AspectRatio \<Rightarrow> nat \<Rightarrow> SceneBlueprint \<Rightarrow> jsstring \<Rightarrow> GeneratedImage" where
  "failedImage env inputText ar i scene suggested =
     \<lparr>id' = mk_id (decimal (startTime env)) i,
      originalInput = inputText,
      refinedPrompt = english_prompt scene,
      suggestedPrompt =
        (if suggested \<noteq> [] \<and> suggested \<noteq> english_prompt scene then Some suggested else None),
      sceneSummary = Some (korean_summary scene),
      imageUrl = [],
      timestamp = clock env i,
      aspectRatio = ar,
      batchId = Some (decimal (startTime env)),
      status = Failed\<rparr>"

text \<open>
  How the body of the outer \<^verbatim>\<open>try\<close> ends: it runs to its end, or an exception leaves
  it, here with the exception's \<^verbatim>\<open>message\<close>.
\<close>

datatype completion = Completed | Threw jsstring

definition prepend :: "effect list \<Rightarrow> effect list \<times> completion \<Rightarrow> effect list \<times> completion" where
  "prepend es r = (es @ fst r, snd r)"

text \<open>
  The loop \<^verbatim>\<open>for (let i = 0; i < scenes.length; i++)\<close> from index \<open>i\<close> on, over the
  elements that remain; \<open>n\<close> is \<^verbatim>\<open>scenes.length\<close>. On a \<^verbatim>\<open>null\<close> element the read
  \<^verbatim>\<open>scene.korean_summary\<close>, in the argument of \<^verbatim>\<open>setLoadingState\<close> and outside the inner
  \<^verbatim>\<open>try\<close>, throws after the delay; the loop is left. The inner \<^verbatim>\<open>try\<close> catches what
  the render call throws, and nothing else in the body throws.
\<close>

fun generate_loop ::
  "Env \<Rightarrow> jsstring \<Rightarrow> AspectRatio \<Rightarrow> nat \<Rightarrow> nat \<Rightarrow> SceneBlueprint option list
   \<Rightarrow> GeneratedImage list \<Rightarrow> effect list \<times> completion" where
  "generate_loop env inputText ar n i [] tempBatch = ([], Completed)"
| "generate_loop env inputText ar n i (None # rest) tempBatch =
     ((if i > 0 then [Delay 3000] else []), Threw (typeErrorMessage env))"
| "generate_loop env inputText ar n i (Some scene # rest) tempBatch =
     prepend
       ((if i > 0 then [Delay 3000] else [])
        @ [SetLoadingState
             \<lparr>lstatus = Generating, current = Some (i + 1), total = Some n,
              message = Some (msg_drawing (i + 1) n (korean_summary scene))\<rparr>,
           RenderCall (english_prompt scene) ar])
       (case generateImage (renderReply env i) of
          Some url \<Rightarrow>
            (let tb = tempBatch @ [newImage env inputText ar i scene url] in
             prepend [SetCurrentBatch tb, PrependHistory (newImage env inputText ar i scene url)]
               (generate_loop env inputText ar n (Suc i) rest tb))
        | None \<Rightarrow>
            (let suggested = getPromptFix (fixReply env i) (english_prompt scene);
                 tb = tempBatch @ [failedImage env inputText ar i scene suggested] in
             prepend [FixCall (english_prompt scene), SetCurrentBatch tb]
               (generate_loop env inputText ar n (Suc i) rest tb)))"

text \<open>
  \<^verbatim>\<open>handleGenerate\<close>: nothing on a blank script; otherwise the body of the outer
  \<^verbatim>\<open>try\<close> (\<^verbatim>\<open>analyzeScript\<close> catches its own errors, so only the loop can throw), then
  the status \<^verbatim>\<open>'success'\<close>, or in the outer \<^verbatim>\<open>catch\<close> the error message
  (\<^verbatim>\<open>err.message || "..."\<close>) and the status \<^verbatim>\<open>'error'\<close>.
\<close>

definition handleGenerate_effects :: "Env \<Rightarrow> jsstring \<Rightarrow> AspectRatio \<Rightarrow> effect list" where
  "handleGenerate_effects env inputText ar =
     (if js_trim inputText = [] then []
      else
        (let scenes = analyzeScript (parse env) (analysisReply env) inputText;
             loop = generate_loop env inputText ar (length scenes) 0 scenes [] in
         [SetLoadingState
            \<lparr>lstatus = Analyzing, current = None, total = None, message = Some msg_analyzing\<rparr>,
          SetErrorMsg None,
          AnalyzeCall inputText,
          SetLoadingState
            \<lparr>lstatus = Generating, current = Some 0, total = Some (length scenes),
             message = Some (msg_ready (length scenes))\<rparr>,
          SetCurrentBatch []]
         @ fst loop
         @ (case snd loop of
              Completed \<Rightarrow>
                [SetLoadingState \<lparr>lstatus = Done, current = None, total = None, message = None\<rparr>]
            | Threw m \<Rightarrow>
                [SetErrorMsg (Some (if m = [] then msg_unknown else m)),
                 SetLoadingState
                   \<lparr>lstatus = Error, current = None, total = None, message = None\<rparr>])))"

definition handleGenerate :: "Env \<Rightarrow> jsstring \<Rightarrow> AspectRatio \<Rightarrow> AppState \<Rightarrow> AppState" where
  "handleGenerate env inputText ar st = run_effects (handleGenerate_effects env inputText ar) st"

subsection \<open>handleRetry\<close>

definition promptToUse :: "GeneratedImage \<Rightarrow> bool \<Rightarrow> jsstring" where
  "promptToUse item useSuggestion =
     (case suggestedPrompt item of
        Some s \<Rightarrow> if useSuggestion \<and> s \<noteq> [] then s else refinedPrompt item
      | None \<Rightarrow> refinedPrompt item)"

definition successItem :: "GeneratedImage \<Rightarrow> jsstring \<Rightarrow> jsstring \<Rightarrow> nat \<Rightarrow> GeneratedImage" where
  "successItem item url prompt now =
     item\<lparr>imageUrl := url, refinedPrompt := prompt, status := Success, timestamp := now\<rparr>"

text \<open>
  \<^verbatim>\<open>handleRetry\<close> up to its \<^verbatim>\<open>await\<close>: nothing when the id is in \<^verbatim>\<open>retryingIds\<close>,
  otherwise the id is added and the render call issued.
\<close>

definition retry_begin :: "AppState \<Rightarrow> GeneratedImage \<Rightarrow> bool \<Rightarrow> effect list" where
  "retry_begin st item useSuggestion =
     (if id' item \<in> retryingIds st then []
      else [AddRetrying (id' item),
            RenderCall (promptToUse item useSuggestion) (aspectRatio item)])"

text \<open>
  \<^verbatim>\<open>handleRetry\<close> after the \<^verbatim>\<open>await\<close>, on the renderer's reply: the rest of the
  \<^verbatim>\<open>try\<close> or the \<^verbatim>\<open>catch\<close>, then the \<^verbatim>\<open>finally\<close>.
\<close>

definition retry_end ::
  "GeneratedImage \<Rightarrow> bool \<Rightarrow> ImageResponse reply \<Rightarrow> nat \<Rightarrow> effect list" where
  "retry_end item useSuggestion r now =
     (case generateImage r of
        Some url \<Rightarrow>
          [ReplaceInBatch (successItem item url (promptToUse item useSuggestion) now),
           PrependHistory (successItem item url (promptToUse item useSuggestion) now)]
      | None \<Rightarrow> [SetErrorMsg (Some msg_retry_failed)])
     @ [DeleteRetrying (id' item)]"

definition handleRetry_effects ::
  "AppState \<Rightarrow> GeneratedImage \<Rightarrow> bool \<Rightarrow> ImageResponse reply \<Rightarrow> nat \<Rightarrow> effect list" where
  "handleRetry_effects st item useSuggestion r now =
     (if id' item \<in> retryingIds st then []
      else retry_begin st item useSuggestion @ retry_end item useSuggestion r now)"

definition handleRetry ::
  "GeneratedImage \<Rightarrow> bool \<Rightarrow> ImageResponse reply \<Rightarrow> nat \<Rightarrow> AppState \<Rightarrow> AppState" where
  "handleRetry item useSuggestion r now st =
     run_effects (handleRetry_effects st item useSuggestion r now) st"

subsection \<open>handleDelete and handleSelectHistoryItem\<close>

definition handleDelete :: "jsstring \<Rightarrow> AppState \<Rightarrow> AppState" where
  "handleDelete i st = run_effects [FilterHistory i, FilterBatch i] st"

definition handleSelectHistoryItem :: "GeneratedImage \<Rightarrow> AppState \<Rightarrow> AppState" where
  "handleSelectHistoryItem item st =
     (let siblings = rev (filter (\<lambda>h. batchId h = batchId item) (history st)) in
      if batchId item \<noteq> None \<and> batchId item \<noteq> Some [] \<and> length siblings > 1
      then st\<lparr>currentBatch := sort_by (\<lambda>a b. localeCompare (id' a) (id' b)) siblings\<rparr>
      else st\<lparr>currentBatch := [item]\<rparr>)"

section \<open>Vocabulary of the properties\<close>

text \<open>
  The scene index that an id carries: the decimal number after its last underscore. The
  loop writes its 0-based index \<open>i\<close> there; the scene shown as number \<open>i + 1\<close> is the
  scene at that index.
\<close>

definition digits_value :: "jsstring \<Rightarrow> nat" where
  "digits_value ds = foldl (\<lambda>acc d. 10 * acc + (d - 48)) 0 ds"

definition suffix_index :: "jsstring \<Rightarrow> nat" where
  "suffix_index s = digits_value (rev (takeWhile (\<lambda>c. c \<noteq> 95) (rev s)))"

text \<open>
  The scenes that the loop reaches: the elements before the first \<^verbatim>\<open>null\<close>, all of them
  when there is none.
\<close>

fun attempted :: "'a option list \<Rightarrow> 'a list" where
  "attempted [] = []"
| "attempted (None # rest) = []"
| "attempted (Some x # rest) = x # attempted rest"

text \<open>The record that the loop body builds for the scene at index \<open>i\<close>, and those of a whole list.\<close>

definition scene_result :: "Env \<Rightarrow> jsstring \<Rightarrow> AspectRatio \<Rightarrow> nat \<Rightarrow> SceneBlueprint \<Rightarrow> GeneratedImage" where
  "scene_result env inputText ar i scene =
     (case generateImage (renderReply env i) of
        Some url \<Rightarrow> newImage env inputText ar i scene url
      | None \<Rightarrow>
          failedImage env inputText ar i scene
            (getPromptFix (fixReply env i) (english_prompt scene)))"

fun batch_results :: "Env \<Rightarrow> jsstring \<Rightarrow> AspectRatio \<Rightarrow> nat \<Rightarrow> SceneBlueprint list \<Rightarrow> GeneratedImage list" where
  "batch_results env inputText ar i [] = []"
| "batch_results env inputText ar i (scene # rest) =
     scene_result env inputText ar i scene # batch_results env inputText ar (Suc i) rest"

text \<open>The effects of one loop iteration, given the record \<open>r\<close> it builds.\<close>

definition scene_effects ::
  "Env \<Rightarrow> AspectRatio \<Rightarrow> nat \<Rightarrow> nat \<Rightarrow> SceneBlueprint \<Rightarrow> GeneratedImage list \<Rightarrow> GeneratedImage
   \<Rightarrow> effect list" where
  "scene_effects env ar n i scene tb r =
     (if i > 0 then [Delay 3000] else [])
     @ [SetLoadingState
          \<lparr>lstatus = Generating, current = Some (i + 1), total = Some n,
           message = Some (msg_drawing (i + 1) n (korean_summary scene))\<rparr>,
        RenderCall (english_prompt scene) ar]
     @ (if status r = Success then [SetCurrentBatch (tb @ [r]), PrependHistory r]
        else [FixCall (english_prompt scene), SetCurrentBatch (tb @ [r])])"

text \<open>The render calls of a run, in order.\<close>

fun render_calls :: "effect list \<Rightarrow> (jsstring \<times> AspectRatio) list" where
  "render_calls [] = []"
| "render_calls (RenderCall p a # es) = (p, a) # render_calls es"
| "render_calls (e # es) = render_calls es"

text \<open>The records that an effect writes into the live batch view or the history.\<close>

fun emitted :: "effect \<Rightarrow> GeneratedImage list" where
  "emitted (SetCurrentBatch b) = b"
| "emitted (PrependHistory x) = [x]"
| "emitted (ReplaceInBatch x) = [x]"
| "emitted e = []"

text \<open>The states a run goes through: before the first effect and after each one.\<close>

fun trace_states :: "effect list \<Rightarrow> AppState \<Rightarrow> AppState list" where
  "trace_states [] st = [st]"
| "trace_states (e # es) st = st # trace_states es (apply_effect e st)"

subsection \<open>A run with four scenes, the second of which fails to render\<close>

text \<open>The message of the TypeError of a property read on \<^verbatim>\<open>null\<close>, as V8 words it.\<close>

definition null_read_message :: jsstring where
  "null_read_message =
     ascii ''Cannot read properties of null (reading '' @ [39] @ ascii ''korean_summary''
     @ [39] @ ascii '')''"

definition example_json :: jsstring where
  \<open>example_json = ascii
     ''[{"scene_number":1,"korean_summary":"a","english_prompt":"p1"},{"scene_number":2,"korean_summary":"b","english_prompt":"p2"},{"scene_number":3,"korean_summary":"c","english_prompt":"p3"},{"scene_number":4,"korean_summary":"d","english_prompt":"p4"}]''\<close>

definition example_scenes :: "SceneBlueprint list" where
  "example_scenes =
     [\<lparr>scene_number = 1, korean_summary = ascii ''a'', english_prompt = ascii ''p1''\<rparr>,
      \<lparr>scene_number = 2, korean_summary = ascii ''b'', english_prompt = ascii ''p2''\<rparr>,
      \<lparr>scene_number = 3, korean_summary = ascii ''c'', english_prompt = ascii ''p3''\<rparr>,
      \<lparr>scene_number = 4, korean_summary = ascii ''d'', english_prompt = ascii ''p4''\<rparr>]"

definition image_reply :: "ImageResponse reply" where
  "image_reply =
     Resolves (ImageResponse (Some [Candidate (Some (Content (Some
       [Part None, Part (Some (InlineData (Present (ascii ''iVBORw0KGgo='')) Missing))])))]))"

definition example_env :: Env where
  "example_env =
     \<lparr>parse = (\<lambda>t. if t = example_json then Some (PArray (map Some example_scenes)) else None),
      startTime = 1700000000000,
      analysisReply = Resolves (TextResponse (Some example_json)),
      renderReply = (\<lambda>i. if i = 1 then Rejects else image_reply),
      fixReply = (\<lambda>i. Resolves (TextResponse (Some (ascii ''a calm village scene'')))),
      clock = (\<lambda>i. 1700000000100 + 4000 * i),
      typeErrorMessage = null_read_message\<rparr>"

definition example_state :: AppState where
  "example_state =
     \<lparr>loadingState = \<lparr>lstatus = Idle, current = None, total = None, message = None\<rparr>,
      currentBatch = [], history = [], errorMsg = None, retryingIds = {}\<rparr>"

definition example_failed :: GeneratedImage where
  "example_failed =
     failedImage example_env example_json Ratio_16_9 1
       \<lparr>scene_number = 2, korean_summary = ascii ''b'', english_prompt = ascii ''p2''\<rparr>
       (ascii ''a calm village scene'')"

definition example_batch :: "GeneratedImage list" where
  "example_batch =
     [newImage example_env example_json Ratio_16_9 0
        \<lparr>scene_number = 1, korean_summary = ascii ''a'', english_prompt = ascii ''p1''\<rparr>
        (ascii ''data:image/png;base64,iVBORw0KGgo=''),
      example_failed,
      newImage example_env example_json Ratio_16_9 2
        \<lparr>scene_number = 3, korean_summary = ascii ''c'', english_prompt = ascii ''p3''\<rparr>
        (ascii ''data:image/png;base64,iVBORw0KGgo=''),
      newImage example_env example_json Ratio_16_9 3
        \<lparr>scene_number = 4, korean_summary = ascii ''d'', english_prompt = ascii ''p4''\<rparr>
        (ascii ''data:image/png;base64,iVBORw0KGgo='')]"

subsection \<open>An analyzer reply whose second element is null\<close>





subsection \<open>An analyzer reply that is the empty JSON array\<close>

definition parse_empty_array :: "jsstring \<Rightarrow> parsed option" where
  "parse_empty_array t = (if t = ascii ''[]'' then Some (PArray []) else None)"

definition empty_array_reply :: "TextResponse reply" where
  "empty_array_reply = Resolves (TextResponse (Some (ascii ''[]'')))"

subsection \<open>Records for the retry examples\<close>

text \<open>The failed record of a scene whose repair call returned the prompt unchanged.\<close>

definition example_unsuggested :: GeneratedImage where
  "example_unsuggested =
     failedImage example_env example_json Ratio_16_9 1
       \<lparr>scene_number = 2, korean_summary = ascii ''b'', english_prompt = ascii ''p2''\<rparr>
       (ascii ''p2'')"

text \<open>
  The four-scene run with two retries of its failed second scene. The first retry is
  requested while the run awaits the render call of the third scene (its first 17
  effects are done) and succeeds before that call returns; the run then goes on from its
  own \<^verbatim>\<open>tempBatch\<close>, which still holds the failed record; the second retry is requested
  after the run has ended.
\<close>

definition scenario_effects :: "effect list" where
  "scenario_effects = handleGenerate_effects example_env example_json Ratio_16_9"

definition scenario1 :: AppState where
  "scenario1 = run_effects (take 17 scenario_effects) example_state"

definition scenario2 :: AppState where
  "scenario2 = handleRetry example_failed False image_reply 1700000009000 scenario1"

definition scenario3 :: AppState where
  "scenario3 = run_effects (drop 17 scenario_effects) scenario2"

definition scenario4 :: AppState where
  "scenario4 = handleRetry example_failed False image_reply 1700000030000 scenario3"

definition example_drawing :: "nat \<Rightarrow> jsstring \<Rightarrow> LoadingState" where
  "example_drawing k summary =
     \<lparr>lstatus = Generating, current = Some k, total = Some 4,
      message = Some (msg_drawing k 4 summary)\<rparr>"

text \<open>A retry with the suggested prompt of the failed second scene, after the run.\<close>

definition example_suggested_retry :: AppState where
  "example_suggested_retry =
     handleRetry example_failed True image_reply 1700000030000
       (example_state\<lparr>currentBatch := example_batch\<rparr>)"

subsection \<open>The suggestion invariant\<close>

definition suggestion_differs :: "GeneratedImage \<Rightarrow> bool" where
  "suggestion_differs x \<longleftrightarrow> suggestedPrompt x \<noteq> Some (refinedPrompt x)"

text \<open>The records of a state: those of the live batch view and of the history.\<close>

definition records :: "AppState \<Rightarrow> GeneratedImage set" where
  "records st = set (currentBatch st) \<union> set (history st)"

subsection \<open>Retries in flight\<close>

text \<open>
  A retry is two steps of the event loop: the click runs \<^verbatim>\<open>handleRetry\<close> up to its
  \<^verbatim>\<open>await\<close> (\<open>retry_begin\<close>), and the return of the render call runs the rest
  (\<open>retry_end\<close>); other clicks may come between the two. The system state adds to the
  application state the retries that await their render call, each with the item and flag
  it was called with, and the render calls issued so far. Each click reads the
  \<^verbatim>\<open>retryingIds\<close> of the state it happens in.
\<close>

record Sys =
  app :: AppState
  inflight :: "(GeneratedImage \<times> bool) list"
  issued :: "(jsstring \<times> AspectRatio) list"

datatype event =
    RetryRequest GeneratedImage bool
  | RetryReturn jsstring "ImageResponse reply" nat

fun step :: "event \<Rightarrow> Sys \<Rightarrow> Sys" where
  "step (RetryRequest item useSuggestion) s =
     (if retry_begin (app s) item useSuggestion = [] then s
      else s\<lparr>app := run_effects (retry_begin (app s) item useSuggestion) (app s),
             inflight := inflight s @ [(item, useSuggestion)],
             issued := issued s @ render_calls (retry_begin (app s) item useSuggestion)\<rparr>)"
| "step (RetryReturn i r now) s =
     (case find (\<lambda>p. id' (fst p) = i) (inflight s) of
        None \<Rightarrow> s
      | Some p \<Rightarrow>
          s\<lparr>app := run_effects (retry_end (fst p) (snd p) r now) (app s),
            inflight := remove1 p (inflight s)\<rparr>)"

definition run_events :: "event list \<Rightarrow> Sys \<Rightarrow> Sys" where
  "run_events evs s = fold step evs s"

definition inflight_ids :: "Sys \<Rightarrow> jsstring list" where
  "inflight_ids s = map (\<lambda>p. id' (fst p)) (inflight s)"

definition guard_inv :: "Sys \<Rightarrow> bool" where
  "guard_inv s \<longleftrightarrow> distinct (inflight_ids s) \<and> retryingIds (app s) = set (inflight_ids s)"

definition initial_sys :: "AppState \<Rightarrow> Sys" where
  "initial_sys st = \<lparr>app = st\<lparr>retryingIds := {}\<rparr>, inflight = [], issued = []\<rparr>"

text \<open>The state after a click on the retry button of the failed second scene.\<close>

definition example_inflight :: Sys where
  "example_inflight = step (RetryRequest example_failed False) (initial_sys example_state)"

subsection \<open>A run with eleven scenes, all rendered\<close>

definition eleven_objects :: string where
  \<open>eleven_objects =
     ''{"scene_number":1,"korean_summary":"s","english_prompt":"p"},{"scene_number":2,"korean_summary":"s","english_prompt":"p"},{"scene_number":3,"korean_summary":"s","english_prompt":"p"},{"scene_number":4,"korean_summary":"s","english_prompt":"p"},{"scene_number":5,"korean_summary":"s","english_prompt":"p"},{"scene_number":6,"korean_summary":"s","english_prompt":"p"},{"scene_number":7,"korean_summary":"s","english_prompt":"p"},{"scene_number":8,"korean_summary":"s","english_prompt":"p"},{"scene_number":9,"korean_summary":"s","english_prompt":"p"},{"scene_number":10,"korean_summary":"s","english_prompt":"p"},{"scene_number":11,"korean_summary":"s","english_prompt":"p"}''\<close>

definition eleven_json :: jsstring where
  "eleven_json = ascii (''['' @ eleven_objects @ '']'')"

definition eleven_scenes :: "SceneBlueprint list" where
  "eleven_scenes =
     map (\<lambda>k. \<lparr>scene_number = int k + 1, korean_summary = ascii ''s'',
                english_prompt = ascii ''p''\<rparr>) [0..<11]"

definition eleven_env :: Env where
  "eleven_env =
     \<lparr>parse = (\<lambda>t. if t = eleven_json then Some (PArray (map Some eleven_scenes)) else None),
      startTime = 1700000000000,
      analysisReply = Resolves (TextResponse (Some eleven_json)),
      renderReply = (\<lambda>i. image_reply),
      fixReply = (\<lambda>i. Rejects),
      clock = (\<lambda>i. 1700000000100 + 4000 * i),
      typeErrorMessage = null_read_message\<rparr>"

definition eleven_state :: AppState where
  "eleven_state = handleGenerate eleven_env eleven_json Ratio_16_9 example_state"

section \<open>Lemmas\<close>

subsection \<open>Strings, effects and ids\<close>

lemma ascii_us: "ascii ''_'' = [95]"
  by (simp add: ascii_def)

lemma generateImage_nonempty: "generateImage r = Some url \<Longrightarrow> url \<noteq> []"
  by (auto simp: generateImage_def split: reply.splits option.splits if_splits)

lemma run_effects_append: "run_effects (a @ b) st = run_effects b (run_effects a st)"
  by (simp add: run_effects_def)

lemma run_effects_Nil: "run_effects [] st = st"
  by (simp add: run_effects_def)


lemma run_effects_Cons: "run_effects (e # es) st = run_effects es (apply_effect e st)"
  by (simp add: run_effects_def)

lemma digits_value_decimal: "digits_value (decimal n) = n"
proof (induction n rule: decimal.induct)
  case (1 n)
  show ?case
  proof (cases "n < 10")
    case True
    then show ?thesis by (simp add: decimal.simps[of n] digits_value_def)
  next
    case False
    with 1 have "digits_value (decimal (n div 10)) = n div 10" by simp
    with False show ?thesis by (simp add: decimal.simps[of n] digits_value_def)
  qed
qed

lemma decimal_digits: "c \<in> set (decimal n) \<Longrightarrow> 48 \<le> c \<and> c \<le> 57"
proof (induction n rule: decimal.induct)
  case (1 n)
  show ?case
  proof (cases "n < 10")
    case True
    with 1(2) show ?thesis by (simp add: decimal.simps[of n])
  next
    case False
    with 1 show ?thesis by (auto simp add: decimal.simps[of n])
  qed
qed

lemma decimal_no_underscore: "95 \<notin> set (decimal i)"
  using decimal_digits[of 95 i] by auto

lemma suffix_index_mk_id: "suffix_index (mk_id b i) = i"
proof -
  have "takeWhile (\<lambda>c. c \<noteq> 95) (rev (decimal i) @ 95 # rev b) = rev (decimal i)"
    using decimal_no_underscore[of i] by (subst takeWhile_append2) auto
  then show ?thesis
    by (simp add: suffix_index_def mk_id_def ascii_us digits_value_decimal)
qed

subsection \<open>The generation loop\<close>

lemma render_calls_append: "render_calls (a @ b) = render_calls a @ render_calls b"
  by (induction a rule: render_calls.induct) auto

lemma attempted_map_Some: "attempted (map Some xs) = xs"
  by (induction xs) auto




lemma fst_prepend: "fst (prepend es r) = es @ fst r"
  by (simp add: prepend_def)

lemma snd_prepend: "snd (prepend es r) = snd r"
  by (simp add: prepend_def)

lemma loop_Nil: "generate_loop env inp ar n i [] tb = ([], Completed)"
  by simp

lemma loop_None:
  "generate_loop env inp ar n i (None # rest) tb =
     ((if i > 0 then [Delay 3000] else []), Threw (typeErrorMessage env))"
  by simp

lemma loop_Cons:
  "generate_loop env inp ar n i (Some scene # rest) tb =
     prepend (scene_effects env ar n i scene tb (scene_result env inp ar i scene))
       (generate_loop env inp ar n (Suc i) rest (tb @ [scene_result env inp ar i scene]))"
  by (simp add: scene_effects_def scene_result_def Let_def newImage_def failedImage_def
        prepend_def split: option.splits)

lemma loop_completion:
  "snd (generate_loop env inp ar n i scenes tb) =
     (if None \<in> set scenes then Threw (typeErrorMessage env) else Completed)"
proof (induction scenes arbitrary: i tb)
  case Nil
  then show ?case by simp
next
  case (Cons x rest)
  show ?case
  proof (cases x)
    case None
    then show ?thesis by simp
  next
    case (Some scene)
    then show ?thesis
      by (simp only: loop_Cons snd_prepend Cons.IH) auto
  qed
qed


lemma scene_effects_currentBatch:
  "currentBatch (run_effects (scene_effects env ar n i scene tb r) st) = tb @ [r]"
  by (simp add: scene_effects_def run_effects_def)

lemma scene_effects_history:
  "history (run_effects (scene_effects env ar n i scene tb r) st) =
     (if status r = Success then r # history st else history st)"
  by (simp add: scene_effects_def run_effects_def)


lemma loop_currentBatch:
  "currentBatch (run_effects (fst (generate_loop env inp ar n i scenes tb)) st) =
     (if attempted scenes = [] then currentBatch st
      else tb @ batch_results env inp ar i (attempted scenes))"
proof (induction scenes arbitrary: i tb st)
  case Nil
  then show ?case by (simp add: run_effects_Nil)
next
  case (Cons x rest)
  show ?case
  proof (cases x)
    case None
    then show ?thesis by (simp add: run_effects_def)
  next
    case (Some scene)
    show ?thesis
      unfolding Some loop_Cons fst_prepend run_effects_append Cons.IH
      by (simp add: scene_effects_currentBatch)
  qed
qed

lemma loop_history:
  "history (run_effects (fst (generate_loop env inp ar n i scenes tb)) st) =
     rev (filter (\<lambda>r. status r = Success) (batch_results env inp ar i (attempted scenes)))
     @ history st"
proof (induction scenes arbitrary: i tb st)
  case Nil
  then show ?case by (simp add: run_effects_Nil)
next
  case (Cons x rest)
  show ?case
  proof (cases x)
    case None
    then show ?thesis by (simp add: run_effects_def)
  next
    case (Some scene)
    show ?thesis
      unfolding Some loop_Cons fst_prepend run_effects_append Cons.IH
      by (simp add: scene_effects_history)
  qed
qed

lemma batch_results_length: "length (batch_results env inp ar i scenes) = length scenes"
  by (induction scenes arbitrary: i) auto

lemma scene_result_id: "id' (scene_result env inp ar i scene) = mk_id (decimal (startTime env)) i"
  by (simp add: scene_result_def newImage_def failedImage_def split: option.splits)

lemma batch_results_ids:
  "map id' (batch_results env inp ar i scenes) = map (mk_id (decimal (startTime env))) [i..<i + length scenes]"
proof (induction scenes arbitrary: i)
  case Nil
  then show ?case by simp
next
  case (Cons scene rest)
  have "[i..<i + length (scene # rest)] = i # [Suc i..<Suc i + length rest]"
    by (simp add: upt_rec)
  then show ?case by (simp add: Cons.IH scene_result_id)
qed



lemma trace_states_start: "st \<in> set (trace_states es st)"
  by (cases es) auto

lemma trace_states_end: "run_effects es st \<in> set (trace_states es st)"
  by (induction es arbitrary: st) (auto simp: run_effects_def)

lemma set_trace_states_append:
  "set (trace_states (a @ b) st) = set (trace_states a st) \<union> set (trace_states b (run_effects a st))"
  by (induction a arbitrary: st) (auto simp: run_effects_def trace_states_start)

lemma trace_states_second: "es = e # rest \<Longrightarrow> apply_effect e st \<in> set (trace_states es st)"
  by (auto simp: trace_states_start)

lemma batch_results_status:
  "r \<in> set (batch_results env inp ar i scenes) \<Longrightarrow> (imageUrl r \<noteq> []) = (status r = Success)"
  by (induction scenes arbitrary: i)
     (auto simp: scene_result_def newImage_def failedImage_def generateImage_nonempty
           split: option.splits)

lemma scene_result_suggestion:
  "suggestedPrompt (scene_result env inp ar i scene) \<noteq> Some (refinedPrompt (scene_result env inp ar i scene))"
  by (auto simp: scene_result_def newImage_def failedImage_def split: option.splits)

lemma scene_effects_emitted:
  "e \<in> set (scene_effects env ar n i scene tb r) \<Longrightarrow> x \<in> set (emitted e) \<Longrightarrow> x \<in> set tb \<or> x = r"
  by (auto simp: scene_effects_def split: if_splits)

lemma loop_emitted:
  "e \<in> set (fst (generate_loop env inp ar n i scenes tb)) \<Longrightarrow> x \<in> set (emitted e) \<Longrightarrow>
     x \<in> set tb \<or> x \<in> set (batch_results env inp ar i (attempted scenes))"
proof (induction scenes arbitrary: i tb)
  case Nil
  then show ?case by simp
next
  case (Cons y rest)
  show ?case
  proof (cases y)
    case None
    with Cons.prems show ?thesis by (auto split: if_splits)
  next
    case (Some scene)
    from Cons.prems(1) consider
        (a) "e \<in> set (scene_effects env ar n i scene tb (scene_result env inp ar i scene))"
      | (b) "e \<in> set (fst (generate_loop env inp ar n (Suc i) rest
                            (tb @ [scene_result env inp ar i scene])))"
      unfolding Some loop_Cons fst_prepend by auto
    then show ?thesis
    proof cases
      case a
      from scene_effects_emitted[OF a Cons.prems(2)] show ?thesis by (auto simp: Some)
    next
      case b
      from Cons.IH[OF b Cons.prems(2)] show ?thesis by (auto simp: Some)
    qed
  qed
qed



lemma handleGenerate_effects_eq:
  "js_trim inp \<noteq> [] \<Longrightarrow>
   handleGenerate_effects env inp ar =
     [SetLoadingState
        \<lparr>lstatus = Analyzing, current = None, total = None, message = Some msg_analyzing\<rparr>,
      SetErrorMsg None,
      AnalyzeCall inp,
      SetLoadingState
        \<lparr>lstatus = Generating, current = Some 0,
         total = Some (length (analyzeScript (parse env) (analysisReply env) inp)),
         message = Some (msg_ready (length (analyzeScript (parse env) (analysisReply env) inp)))\<rparr>,
      SetCurrentBatch []]
     @ fst (generate_loop env inp ar (length (analyzeScript (parse env) (analysisReply env) inp)) 0
              (analyzeScript (parse env) (analysisReply env) inp) [])
     @ (if None \<in> set (analyzeScript (parse env) (analysisReply env) inp)
        then [SetErrorMsg
                (Some (if typeErrorMessage env = [] then msg_unknown else typeErrorMessage env)),
              SetLoadingState \<lparr>lstatus = Error, current = None, total = None, message = None\<rparr>]
        else [SetLoadingState \<lparr>lstatus = Done, current = None, total = None, message = None\<rparr>])"
  by (simp add: handleGenerate_effects_def Let_def loop_completion)

lemma handleGenerate_emitted:
  assumes "e \<in> set (handleGenerate_effects env inp ar)" and "x \<in> set (emitted e)"
  shows "x \<in> set (batch_results env inp ar 0
                    (attempted (analyzeScript (parse env) (analysisReply env) inp)))"
proof (cases "js_trim inp = []")
  case True
  with assms show ?thesis by (simp add: handleGenerate_effects_def)
next
  case False
  let ?scenes = "analyzeScript (parse env) (analysisReply env) inp"
  from assms False have "e \<in> set (fst (generate_loop env inp ar (length ?scenes) 0 ?scenes []))"
    by (auto simp: handleGenerate_effects_eq split: if_splits)
  from loop_emitted[OF this assms(2)] show ?thesis by simp
qed

lemma handleGenerate_currentBatch:
  "js_trim inp \<noteq> [] \<Longrightarrow>
   currentBatch (handleGenerate env inp ar st) =
     batch_results env inp ar 0 (attempted (analyzeScript (parse env) (analysisReply env) inp))"
  by (simp add: handleGenerate_def handleGenerate_effects_eq run_effects_append
        run_effects_Cons run_effects_Nil loop_currentBatch)

lemma handleGenerate_history:
  "js_trim inp \<noteq> [] \<Longrightarrow>
   history (handleGenerate env inp ar st) =
     rev (filter (\<lambda>r. status r = Success)
           (batch_results env inp ar 0
              (attempted (analyzeScript (parse env) (analysisReply env) inp))))
     @ history st"
  by (simp add: handleGenerate_def handleGenerate_effects_eq run_effects_append
        run_effects_Cons run_effects_Nil loop_history)



lemma scene_effects_no_clear: "SetCurrentBatch [] \<notin> set (scene_effects env ar n i scene tb r)"
  by (auto simp: scene_effects_def)

lemma loop_no_clear: "SetCurrentBatch [] \<notin> set (fst (generate_loop env inp ar n i scenes tb))"
proof (induction scenes arbitrary: i tb)
  case Nil
  then show ?case by simp
next
  case (Cons y rest)
  show ?case
  proof (cases y)
    case None
    then show ?thesis by simp
  next
    case (Some scene)
    show ?thesis
      unfolding Some loop_Cons fst_prepend using Cons.IH scene_effects_no_clear by auto
  qed
qed

lemma scene_effects_lstatus:
  "lstatus (loadingState st) = Generating \<Longrightarrow>
   s \<in> set (trace_states (scene_effects env ar n i scene tb r) st) \<Longrightarrow>
   lstatus (loadingState s) = Generating"
  by (auto simp: scene_effects_def split: if_splits)

lemma scene_effects_lstatus_end:
  "lstatus (loadingState (run_effects (scene_effects env ar n i scene tb r) st)) = Generating"
  by (simp add: scene_effects_def run_effects_def)

lemma loop_lstatus:
  "lstatus (loadingState st) = Generating \<Longrightarrow>
   s \<in> set (trace_states (fst (generate_loop env inp ar n i scenes tb)) st) \<Longrightarrow>
   lstatus (loadingState s) = Generating"
proof (induction scenes arbitrary: i tb st)
  case Nil
  then show ?case by simp
next
  case (Cons y rest)
  show ?case
  proof (cases y)
    case None
    with Cons.prems show ?thesis by (auto split: if_splits)
  next
    case (Some scene)
    let ?r = "scene_result env inp ar i scene"
    let ?se = "scene_effects env ar n i scene tb ?r"
    from Cons.prems(2) consider
        (a) "s \<in> set (trace_states ?se st)"
      | (b) "s \<in> set (trace_states (fst (generate_loop env inp ar n (Suc i) rest (tb @ [?r])))
                        (run_effects ?se st))"
      unfolding Some loop_Cons fst_prepend set_trace_states_append by auto
    then show ?thesis
    proof cases
      case a
      with Cons.prems(1) show ?thesis by (rule scene_effects_lstatus)
    next
      case b
      show ?thesis by (rule Cons.IH[OF scene_effects_lstatus_end b])
    qed
  qed
qed

subsection \<open>The run with four scenes\<close>

lemma js_trim_nonspace: "s \<noteq> [] \<Longrightarrow> \<not> js_whitespace (hd s) \<Longrightarrow> \<not> js_whitespace (last s) \<Longrightarrow> js_trim s = s"
proof -
  assume a: "s \<noteq> []" "\<not> js_whitespace (hd s)" "\<not> js_whitespace (last s)"
  then have "dropWhile js_whitespace s = s" by (cases s) auto
  moreover from a have "dropWhile js_whitespace (rev s) = rev s"
    by (cases "rev s") (auto simp: last_rev[symmetric] hd_rev)
  ultimately show ?thesis by (simp add: js_trim_def)
qed

lemma example_trim: "js_trim example_json = example_json"
  by (rule js_trim_nonspace) (simp_all add: example_json_def ascii_def js_whitespace_def)

lemma example_clean: "cleanJson example_json = example_json"
  by (simp add: cleanJson_def example_trim Let_def) (simp add: startsWith_def example_json_def ascii_def)

lemma example_analysis:
  "analyzeScript (parse example_env) (analysisReply example_env) example_json
     = map Some example_scenes"
  by (simp add: analyzeScript_def analyze_try_def example_env_def example_clean)
     (simp add: example_json_def ascii_def)

lemma image_reply_ok: "generateImage image_reply = Some (ascii ''data:image/png;base64,iVBORw0KGgo='')"
  by (simp add: generateImage_def image_reply_def extract_image_def data_url_def ascii_def)

lemma example_fix:
  "getPromptFix (Resolves (TextResponse (Some (ascii ''a calm village scene'')))) p
     = ascii ''a calm village scene''"
proof -
  have "js_trim (ascii ''a calm village scene'') = ascii ''a calm village scene''"
    by (rule js_trim_nonspace) (simp_all add: ascii_def js_whitespace_def)
  then show ?thesis by (simp add: getPromptFix_def) (simp add: ascii_def)
qed

lemma example_results:
  "batch_results example_env example_json Ratio_16_9 0 example_scenes = example_batch"
proof -
  have r1: "generateImage (renderReply example_env (Suc 0)) = None"
    by (simp add: example_env_def generateImage_def)
  have r0: "i \<noteq> 1 \<Longrightarrow> generateImage (renderReply example_env i)
      = Some (ascii ''data:image/png;base64,iVBORw0KGgo='')" for i
    by (simp add: example_env_def image_reply_ok)
  have f: "fixReply example_env i = Resolves (TextResponse (Some (ascii ''a calm village scene'')))" for i
    by (simp add: example_env_def)
  show ?thesis
    by (simp add: example_scenes_def example_batch_def example_failed_def scene_result_def r1 r0 f
          example_fix numeral_2_eq_2 numeral_3_eq_3)
qed

lemma example_nonempty: "js_trim example_json \<noteq> []"
  by (simp add: example_trim) (simp add: example_json_def ascii_def)

lemma example_currentBatch:
  "currentBatch (handleGenerate example_env example_json Ratio_16_9 st) = example_batch"
  by (simp add: handleGenerate_currentBatch[OF example_nonempty] example_analysis example_results
        attempted_map_Some)


lemma example_first_effects:
  "set (scene_effects example_env Ratio_16_9 4 0 (hd example_scenes) [] (hd example_batch))
     \<subseteq> set (handleGenerate_effects example_env example_json Ratio_16_9)"
proof -
  have sc: "map Some example_scenes = Some (hd example_scenes) # map Some (tl example_scenes)"
    by (simp add: example_scenes_def)
  have r: "scene_result example_env example_json Ratio_16_9 0 (hd example_scenes) = hd example_batch"
    using example_results by (simp add: example_scenes_def example_batch_def)
  have n: "length example_scenes = 4" by (simp add: example_scenes_def)
  have l: "fst (generate_loop example_env example_json Ratio_16_9 4 0 (map Some example_scenes) []) =
      scene_effects example_env Ratio_16_9 4 0 (hd example_scenes) [] (hd example_batch)
      @ fst (generate_loop example_env example_json Ratio_16_9 4 (Suc 0)
               (map Some (tl example_scenes)) [hd example_batch])"
    by (subst sc) (simp add: loop_Cons fst_prepend r del: generate_loop.simps)
  have "set (fst (generate_loop example_env example_json Ratio_16_9 4 0 (map Some example_scenes) []))
      \<subseteq> set (handleGenerate_effects example_env example_json Ratio_16_9)"
    using n by (auto simp: handleGenerate_effects_eq[OF example_nonempty] example_analysis)
  then show ?thesis unfolding l by simp
qed







lemma clean_empty_array: "cleanJson (ascii ''[]'') = ascii ''[]''"
proof -
  have "js_trim (ascii ''[]'') = ascii ''[]''"
    by (rule js_trim_nonspace) (simp_all add: ascii_def js_whitespace_def)
  then show ?thesis
    by (simp add: cleanJson_def Let_def) (simp add: startsWith_def ascii_def)
qed

lemma mk_id_eq: "mk_id b i = mk_id b j \<longleftrightarrow> i = j"
  using suffix_index_mk_id by metis

lemma example_render:
  "generateImage (renderReply example_env i) =
     (if i = 1 then None else Some (ascii ''data:image/png;base64,iVBORw0KGgo=''))"
proof (cases "i = 1")
  case True
  then show ?thesis by (simp add: example_env_def generateImage_def)
next
  case False
  then show ?thesis by (simp add: example_env_def image_reply_ok)
qed

lemma example_fixes: "getPromptFix (fixReply example_env i) p = ascii ''a calm village scene''"
  by (simp add: example_env_def example_fix)

lemma scenario_effects_split:
  "scenario_effects =
     [SetLoadingState
        \<lparr>lstatus = Analyzing, current = None, total = None, message = Some msg_analyzing\<rparr>,
      SetErrorMsg None, AnalyzeCall example_json,
      SetLoadingState
        \<lparr>lstatus = Generating, current = Some 0, total = Some 4, message = Some (msg_ready 4)\<rparr>,
      SetCurrentBatch [],
      SetLoadingState (example_drawing 1 (ascii ''a'')), RenderCall (ascii ''p1'') Ratio_16_9,
      SetCurrentBatch (take 1 example_batch), PrependHistory (example_batch ! 0),
      Delay 3000, SetLoadingState (example_drawing 2 (ascii ''b'')),
      RenderCall (ascii ''p2'') Ratio_16_9,
      FixCall (ascii ''p2''), SetCurrentBatch (take 2 example_batch),
      Delay 3000, SetLoadingState (example_drawing 3 (ascii ''c'')),
      RenderCall (ascii ''p3'') Ratio_16_9,
      SetCurrentBatch (take 3 example_batch), PrependHistory (example_batch ! 2),
      Delay 3000, SetLoadingState (example_drawing 4 (ascii ''d'')),
      RenderCall (ascii ''p4'') Ratio_16_9,
      SetCurrentBatch example_batch, PrependHistory (example_batch ! 3),
      SetLoadingState \<lparr>lstatus = Done, current = None, total = None, message = None\<rparr>]"
proof -
  have none: "None \<notin> set (map Some example_scenes)" by auto
  have loop: "fst (generate_loop example_env example_json Ratio_16_9 n 0 (map Some example_scenes) [])
      = scene_effects example_env Ratio_16_9 n 0 (example_scenes ! 0) [] (example_batch ! 0)
        @ scene_effects example_env Ratio_16_9 n 1 (example_scenes ! 1) (take 1 example_batch)
            (example_batch ! 1)
        @ scene_effects example_env Ratio_16_9 n 2 (example_scenes ! 2) (take 2 example_batch)
            (example_batch ! 2)
        @ scene_effects example_env Ratio_16_9 n 3 (example_scenes ! 3) (take 3 example_batch)
            (example_batch ! 3)" for n
    by (simp add: example_scenes_def loop_Cons fst_prepend scene_result_def example_render
          example_fixes example_batch_def example_failed_def numeral_2_eq_2 numeral_3_eq_3
          del: generate_loop.simps(3))
  have st: "status (example_batch ! 0) = Success" "status (example_batch ! Suc 0) = Failed"
    "status (example_batch ! Suc (Suc 0)) = Success"
    "status (example_batch ! Suc (Suc (Suc 0))) = Success"
    by (simp_all add: example_batch_def example_failed_def newImage_def failedImage_def)
  have tk: "take (Suc 0) example_batch = [example_batch ! 0]"
    "take (Suc (Suc 0)) example_batch = [example_batch ! 0, example_batch ! Suc 0]"
    "take (Suc (Suc (Suc 0))) example_batch
       = [example_batch ! 0, example_batch ! Suc 0, example_batch ! Suc (Suc 0)]"
    "[example_batch ! 0, example_batch ! Suc 0, example_batch ! Suc (Suc 0),
      example_batch ! Suc (Suc (Suc 0))] = example_batch"
    by (simp_all add: example_batch_def)
  have sc: "korean_summary (example_scenes ! 0) = ascii ''a''"
    "english_prompt (example_scenes ! 0) = ascii ''p1''"
    "korean_summary (example_scenes ! Suc 0) = ascii ''b''"
    "english_prompt (example_scenes ! Suc 0) = ascii ''p2''"
    "korean_summary (example_scenes ! Suc (Suc 0)) = ascii ''c''"
    "english_prompt (example_scenes ! Suc (Suc 0)) = ascii ''p3''"
    "korean_summary (example_scenes ! Suc (Suc (Suc 0))) = ascii ''d''"
    "english_prompt (example_scenes ! Suc (Suc (Suc 0))) = ascii ''p4''"
    by (simp_all add: example_scenes_def)
  have n: "length example_scenes = 4" by (simp add: example_scenes_def)
  have four: "Suc (Suc (Suc (Suc 0))) = 4" by (simp add: eval_nat_numeral)
  show ?thesis
    unfolding scenario_effects_def handleGenerate_effects_eq[OF example_nonempty] example_analysis
      loop
    using none
    by (simp add: n scene_effects_def st tk sc example_drawing_def numeral_2_eq_2 numeral_3_eq_3
          four del: generate_loop.simps(3))
qed

lemma scenario1_facts:
  "currentBatch scenario1 = take 2 example_batch
   \<and> history scenario1 = [example_batch ! 0]
   \<and> retryingIds scenario1 = {}
   \<and> last (take 17 scenario_effects) = RenderCall (ascii ''p3'') Ratio_16_9"
  by (simp add: scenario_effects_split scenario1_def run_effects_def example_state_def)

subsection \<open>Retries\<close>

lemma handleRetry_success:
  assumes "id' item \<notin> retryingIds st" and "generateImage r = Some url"
  shows "currentBatch (handleRetry item u r now st) =
           map (\<lambda>img. if id' img = id' item then successItem item url (promptToUse item u) now
                       else img) (currentBatch st)"
    and "history (handleRetry item u r now st) =
           successItem item url (promptToUse item u) now # history st"
    and "retryingIds (handleRetry item u r now st) = retryingIds st - {id' item}"
  using assms
  by (simp_all add: handleRetry_def handleRetry_effects_def retry_begin_def retry_end_def
        run_effects_def successItem_def)

lemma handleRetry_failure:
  assumes "generateImage r = None"
  shows "currentBatch (handleRetry item u r now st) = currentBatch st"
    and "history (handleRetry item u r now st) = history st"
  using assms
  by (auto simp: handleRetry_def handleRetry_effects_def retry_begin_def retry_end_def
        run_effects_def)

lemma handleRetry_guarded:
  "id' item \<in> retryingIds st \<Longrightarrow> handleRetry item u r now st = st"
  by (simp add: handleRetry_def handleRetry_effects_def run_effects_def)

lemma scenario2_facts:
  "map id' (history scenario2) = [id' example_failed, id' (example_batch ! 0)]
   \<and> retryingIds scenario2 = {}
   \<and> map status (currentBatch scenario2) = [Success, Success]"
proof -
  have g: "id' example_failed \<notin> retryingIds scenario1" using scenario1_facts by simp
  have i0: "id' (example_batch ! 0) \<noteq> id' example_failed"
    by (simp add: example_batch_def example_failed_def newImage_def failedImage_def mk_id_eq)
  show ?thesis
    unfolding scenario2_def
    using handleRetry_success[OF g image_reply_ok, of False 1700000009000] scenario1_facts i0
    by (simp add: successItem_def example_batch_def newImage_def)
qed

lemma scenario3_facts:
  "currentBatch scenario3 = example_batch
   \<and> map id' (history scenario3)
       = [id' (example_batch ! 3), id' (example_batch ! 2), id' example_failed,
          id' (example_batch ! 0)]
   \<and> retryingIds scenario3 = {}
   \<and> lstatus (loadingState scenario3) = Done"
  using scenario2_facts
  by (simp add: scenario_effects_split scenario3_def run_effects_def)

subsection \<open>The suggestion invariant is kept\<close>

lemma set_insert_by: "set (insert_by cmp x ys) = insert x (set ys)"
  by (induction ys) auto

lemma set_sort_by: "set (sort_by cmp xs) = set xs"
  by (induction xs) (auto simp: sort_by_def set_insert_by)

lemma batch_results_suggestion:
  "x \<in> set (batch_results env inp ar i scenes) \<Longrightarrow> suggestion_differs x"
  by (induction scenes arbitrary: i) (auto simp: suggestion_differs_def scene_result_suggestion)

lemma generate_keeps_suggestion:
  assumes "\<forall>x \<in> records st. suggestion_differs x"
  shows "\<forall>x \<in> records (handleGenerate env inp ar st). suggestion_differs x"
proof (cases "js_trim inp = []")
  case True
  with assms show ?thesis
    by (simp add: handleGenerate_def handleGenerate_effects_def run_effects_def)
next
  case False
  show ?thesis
    using assms batch_results_suggestion
    by (auto simp: records_def handleGenerate_currentBatch[OF False] handleGenerate_history[OF False])
qed

lemma delete_keeps_suggestion:
  "\<forall>x \<in> records st. suggestion_differs x \<Longrightarrow>
   \<forall>x \<in> records (handleDelete i st). suggestion_differs x"
  by (auto simp: records_def handleDelete_def run_effects_def)

lemma select_keeps_suggestion:
  "\<forall>x \<in> records st. suggestion_differs x \<Longrightarrow> suggestion_differs item \<Longrightarrow>
   \<forall>x \<in> records (handleSelectHistoryItem item st). suggestion_differs x"
  by (auto simp: records_def handleSelectHistoryItem_def Let_def set_sort_by)

lemma failed_retry_keeps_suggestion:
  "\<forall>x \<in> records st. suggestion_differs x \<Longrightarrow> generateImage r = None \<Longrightarrow>
   \<forall>x \<in> records (handleRetry item u r now st). suggestion_differs x"
  by (simp add: records_def handleRetry_failure)

lemma plain_retry_keeps_suggestion:
  assumes "\<forall>x \<in> records st. suggestion_differs x" and "suggestion_differs item"
    and "promptToUse item u = refinedPrompt item"
  shows "\<forall>x \<in> records (handleRetry item u r now st). suggestion_differs x"
proof (cases "id' item \<in> retryingIds st")
  case True
  with assms(1) show ?thesis by (simp add: handleRetry_guarded)
next
  case False
  show ?thesis
  proof (cases "generateImage r")
    case None
    with assms(1) show ?thesis by (rule failed_retry_keeps_suggestion)
  next
    case (Some url)
    have "suggestion_differs (successItem item url (promptToUse item u) now)"
      using assms(2) by (simp add: assms(3) successItem_def suggestion_differs_def)
    with assms(1) show ?thesis
      by (auto simp: records_def handleRetry_success[OF False Some])
  qed
qed

lemma suggested_retry_breaks:
  assumes "id' item \<notin> retryingIds st" and "generateImage r = Some url"
    and "suggestedPrompt item = Some s" and "s \<noteq> []"
  shows "\<not> suggestion_differs (successItem item url (promptToUse item True) now)"
    and "successItem item url (promptToUse item True) now
           \<in> records (handleRetry item True r now st)"
  using assms
  by (simp_all add: records_def handleRetry_success[OF assms(1,2)] successItem_def
        suggestion_differs_def promptToUse_def)

subsection \<open>The retry guard\<close>

lemma retry_begin_retryingIds:
  "retryingIds (run_effects (retry_begin st item u) st) =
     (if id' item \<in> retryingIds st then retryingIds st else insert (id' item) (retryingIds st))"
  by (simp add: retry_begin_def run_effects_def)

lemma retry_end_retryingIds:
  "retryingIds (run_effects (retry_end item u r now) st) = retryingIds st - {id' item}"
  by (simp add: retry_end_def run_effects_def split: option.splits)

lemma retry_begin_empty: "retry_begin st item u = [] \<longleftrightarrow> id' item \<in> retryingIds st"
  by (simp add: retry_begin_def)

lemma step_request_guarded:
  "id' item \<in> retryingIds (app s) \<Longrightarrow> step (RetryRequest item u) s = s"
  by (simp add: retry_begin_empty)

lemma find_id_Some:
  "find (\<lambda>p. id' (fst p) = i) xs = Some p \<Longrightarrow> p \<in> set xs \<and> id' (fst p) = i"
  by (induction xs) (auto split: if_splits)

lemma remove1_ids:
  "distinct (map f xs) \<Longrightarrow> p \<in> set xs \<Longrightarrow>
   set (map f (remove1 p xs)) = set (map f xs) - {f p} \<and> distinct (map f (remove1 p xs))"
proof (induction xs)
  case Nil
  then show ?case by simp
next
  case (Cons x xs)
  then show ?case by (cases "x = p") (auto)
qed

lemma step_guard_inv: "guard_inv s \<Longrightarrow> guard_inv (step ev s)"
proof (cases ev)
  case (RetryRequest item u)
  assume inv: "guard_inv s"
  show ?thesis
  proof (cases "id' item \<in> retryingIds (app s)")
    case True
    with inv RetryRequest show ?thesis by (simp add: retry_begin_empty)
  next
    case False
    then have ne: "retry_begin (app s) item u \<noteq> []" by (simp add: retry_begin_empty)
    from inv False show ?thesis
      unfolding RetryRequest
      by (simp add: ne guard_inv_def inflight_ids_def retry_begin_retryingIds)
  qed
next
  case (RetryReturn i r now)
  assume inv: "guard_inv s"
  show ?thesis
  proof (cases "find (\<lambda>p. id' (fst p) = i) (inflight s)")
    case None
    with inv RetryReturn show ?thesis by simp
  next
    case (Some p)
    then have p: "p \<in> set (inflight s)" by (rule find_id_Some[THEN conjunct1])
    from inv have d: "distinct (map (\<lambda>p. id' (fst p)) (inflight s))"
      by (simp add: guard_inv_def inflight_ids_def)
    from remove1_ids[OF d p] inv show ?thesis
      unfolding RetryReturn
      by (simp add: Some guard_inv_def inflight_ids_def retry_end_retryingIds)
  qed
qed

lemma run_events_guard_inv: "guard_inv s \<Longrightarrow> guard_inv (run_events evs s)"
  unfolding run_events_def
  by (induction evs arbitrary: s) (simp_all add: step_guard_inv)

lemma initial_guard_inv: "guard_inv (initial_sys st)"
  by (simp add: guard_inv_def initial_sys_def inflight_ids_def)

subsection \<open>Sorting by id, and the run with eleven scenes\<close>

lemma insert_by_map:
  "map f (insert_by (\<lambda>a b. cmp (f a) (f b)) x ys) = insert_by cmp (f x) (map f ys)"
  by (induction ys) auto

lemma sort_by_map:
  "map f (sort_by (\<lambda>a b. cmp (f a) (f b)) xs) = sort_by cmp (map f xs)"
  by (induction xs) (simp_all add: sort_by_def insert_by_map)

lemma decimal_nonempty: "decimal n \<noteq> []"
  by (subst decimal.simps) simp

lemma batch_results_batchId:
  "x \<in> set (batch_results env inp ar i scenes) \<Longrightarrow> batchId x = Some (decimal (startTime env))"
  by (induction scenes arbitrary: i)
     (auto simp: scene_result_def newImage_def failedImage_def split: option.splits)

lemma scene_result_success:
  "generateImage (renderReply env i) \<noteq> None \<Longrightarrow> status (scene_result env inp ar i scene) = Success"
  by (auto simp: scene_result_def newImage_def split: option.splits)

lemma batch_results_all_success:
  "\<forall>k. generateImage (renderReply env k) \<noteq> None \<Longrightarrow>
   x \<in> set (batch_results env inp ar i scenes) \<Longrightarrow> status x = Success"
proof (induction scenes arbitrary: i)
  case Nil
  then show ?case by simp
next
  case (Cons scene rest)
  from Cons.prems(2) consider (a) "x = scene_result env inp ar i scene"
    | (b) "x \<in> set (batch_results env inp ar (Suc i) rest)" by auto
  then show ?case
  proof cases
    case a
    with Cons.prems(1) show ?thesis by (simp add: scene_result_success)
  next
    case b
    with Cons.IH Cons.prems(1) show ?thesis by blast
  qed
qed

lemma eleven_json_eq: "eleven_json = 91 # ascii eleven_objects @ [93]"
  by (simp add: eleven_json_def ascii_def)

lemma eleven_trim: "js_trim eleven_json = eleven_json"
  by (rule js_trim_nonspace) (simp_all add: eleven_json_eq js_whitespace_def)

lemma eleven_nonempty: "js_trim eleven_json \<noteq> []"
  by (simp add: eleven_trim) (simp add: eleven_json_eq)

lemma eleven_clean: "cleanJson eleven_json = eleven_json"
  by (simp add: cleanJson_def eleven_trim Let_def) (simp add: startsWith_def eleven_json_eq ascii_def)

lemma eleven_analysis:
  "analyzeScript (parse eleven_env) (analysisReply eleven_env) eleven_json
     = map Some eleven_scenes"
  by (simp add: analyzeScript_def analyze_try_def eleven_env_def eleven_clean)
     (simp add: eleven_json_eq)

lemma eleven_ids:
  "map (mk_id b) [0..<11]
     = [b @ [95, 48], b @ [95, 49], b @ [95, 50], b @ [95, 51], b @ [95, 52], b @ [95, 53],
        b @ [95, 54], b @ [95, 55], b @ [95, 56], b @ [95, 57], b @ [95, 49, 48]]"
proof -
  have u: "[0..<11] = [0, 1, 2, 3, 4, 5, 6, 7, 8, 9, 10]" by code_simp
  show ?thesis unfolding u by (simp add: mk_id_def ascii_us decimal.simps)
qed

lemma localeCompare_prefix: "localeCompare (b @ x) (b @ y) = localeCompare x y"
  by (induction b) auto

lemma insert_by_prefix:
  "insert_by localeCompare (b @ x) (map ((@) b) ys) = map ((@) b) (insert_by localeCompare x ys)"
  by (induction ys) (auto simp: localeCompare_prefix)

lemma sort_by_prefix:
  "sort_by localeCompare (map ((@) b) xs) = map ((@) b) (sort_by localeCompare xs)"
  by (induction xs) (simp_all add: sort_by_def insert_by_prefix)

lemma eleven_suffixes_sorted:
  "sort_by localeCompare
     [[95, 48], [95, 49], [95, 50], [95, 51], [95, 52], [95, 53], [95, 54], [95, 55], [95, 56],
      [95, 57], [95, 49, 48]]
   = [[95, 48], [95, 49], [95, 49, 48], [95, 50], [95, 51], [95, 52], [95, 53], [95, 54],
      [95, 55], [95, 56], [95, 57]]"
  by (simp add: sort_by_def collation_weight_def)

lemma eleven_ids_sorted:
  "map suffix_index (sort_by localeCompare (map (mk_id b) [0..<11]))
     = [0, 1, 10, 2, 3, 4, 5, 6, 7, 8, 9]"
proof -
  have "map (mk_id b) [0..<11] = map ((@) b)
     [[95, 48], [95, 49], [95, 50], [95, 51], [95, 52], [95, 53], [95, 54], [95, 55], [95, 56],
      [95, 57], [95, 49, 48]]"
    unfolding eleven_ids by simp
  then have "sort_by localeCompare (map (mk_id b) [0..<11]) = map ((@) b)
     [[95, 48], [95, 49], [95, 49, 48], [95, 50], [95, 51], [95, 52], [95, 53], [95, 54],
      [95, 55], [95, 56], [95, 57]]"
    by (simp only: sort_by_prefix eleven_suffixes_sorted)
  then show ?thesis
    by (simp add: suffix_index_def digits_value_def)
qed

lemma eleven_batch:
  "currentBatch eleven_state = batch_results eleven_env eleven_json Ratio_16_9 0 eleven_scenes
   \<and> history eleven_state
       = rev (batch_results eleven_env eleven_json Ratio_16_9 0 eleven_scenes)"
proof -
  let ?B = "batch_results eleven_env eleven_json Ratio_16_9 0 eleven_scenes"
  have ok: "\<forall>k. generateImage (renderReply eleven_env k) \<noteq> None"
    by (simp add: eleven_env_def image_reply_ok)
  have "filter (\<lambda>r. status r = Success) ?B = ?B"
    using batch_results_all_success[OF ok] by (simp add: filter_id_conv)
  then show ?thesis
    by (simp add: eleven_state_def handleGenerate_currentBatch[OF eleven_nonempty]
          handleGenerate_history[OF eleven_nonempty] eleven_analysis example_state_def
          attempted_map_Some)
qed

section \<open>The claims\<close>







text \<open>
  C5: every record that \<^verbatim>\<open>handleGenerate\<close> or \<^verbatim>\<open>handleRetry\<close> writes into the live batch
  view or the history has a non-empty \<^verbatim>\<open>imageUrl\<close> if and only if its status is success;
  and \<^verbatim>\<open>generateImage\<close> never returns the empty string (it throws instead).
\<close>

theorem C5_image_present_iff_success:
  "(\<forall>e \<in> set (handleGenerate_effects env inputText ar). \<forall>x \<in> set (emitted e).
       (imageUrl x \<noteq> []) = (status x = Success))
   \<and> (\<forall>e \<in> set (handleRetry_effects st item useSuggestion r now). \<forall>x \<in> set (emitted e).
       (imageUrl x \<noteq> []) = (status x = Success))
   \<and> (\<forall>url. generateImage r = Some url \<longrightarrow> url \<noteq> [])"
proof -
  have g: "\<forall>e \<in> set (handleGenerate_effects env inputText ar). \<forall>x \<in> set (emitted e).
       (imageUrl x \<noteq> []) = (status x = Success)"
    using handleGenerate_emitted batch_results_status by blast
  have r: "\<forall>e \<in> set (handleRetry_effects st item useSuggestion r now). \<forall>x \<in> set (emitted e).
       (imageUrl x \<noteq> []) = (status x = Success)"
    by (auto simp: handleRetry_effects_def retry_begin_def retry_end_def successItem_def
          generateImage_nonempty split: if_splits option.splits)
  from g r generateImage_nonempty show ?thesis by blast
qed


theorem C5_witness:
  "PrependHistory (hd example_batch)
     \<in> set (handleGenerate_effects example_env example_json Ratio_16_9)
   \<and> hd example_batch \<in> set (emitted (PrependHistory (hd example_batch)))
   \<and> imageUrl (hd example_batch) \<noteq> [] \<and> status (hd example_batch) = Success
   \<and> generateImage image_reply = Some (ascii ''data:image/png;base64,iVBORw0KGgo='')
   \<and> ascii ''data:image/png;base64,iVBORw0KGgo='' \<noteq> []"
proof -
  have s: "status (hd example_batch) = Success"
    by (simp add: example_batch_def newImage_def)
  have "PrependHistory (hd example_batch)
      \<in> set (scene_effects example_env Ratio_16_9 4 0 (hd example_scenes) [] (hd example_batch))"
    by (simp add: scene_effects_def s)
  with example_first_effects
  have p: "PrependHistory (hd example_batch)
      \<in> set (handleGenerate_effects example_env example_json Ratio_16_9)" by blast
  have e: "hd example_batch \<in> set (emitted (PrependHistory (hd example_batch)))" by simp
  note c = C5_image_present_iff_success
         [of example_env example_json Ratio_16_9 example_state example_failed False image_reply 0]
  from c p e have "(imageUrl (hd example_batch) \<noteq> []) = (status (hd example_batch) = Success)"
    by blast
  moreover from c image_reply_ok have "ascii ''data:image/png;base64,iVBORw0KGgo='' \<noteq> []"
    by blast
  ultimately show ?thesis using s p e image_reply_ok by blast
qed

text \<open>
  C10: in a run of \<^verbatim>\<open>handleGenerate\<close> on a non-empty script, every state whose loading
  status is \<^verbatim>\<open>'analyzing'\<close> shows the live batch view of the start; the view is set to
  the empty list exactly once, after the analysis call and before any render call, and
  up to that point it is unchanged.
\<close>

theorem C10_batch_cleared_once_after_analysis:
  assumes "js_trim inputText \<noteq> []"
  shows "let es = handleGenerate_effects env inputText ar
         in (\<forall>s \<in> set (trace_states es st).
               lstatus (loadingState s) = Analyzing \<longrightarrow> currentBatch s = currentBatch st)
          \<and> length (filter (\<lambda>e. e = SetCurrentBatch []) es) = 1
          \<and> (\<exists>a c. es = a @ SetCurrentBatch [] # c
                 \<and> AnalyzeCall inputText \<in> set a
                 \<and> render_calls a = []
                 \<and> (\<forall>s \<in> set (trace_states a st). currentBatch s = currentBatch st))"
proof -
  let ?scenes = "analyzeScript (parse env) (analysisReply env) inputText"
  let ?n = "length ?scenes"
  let ?a = "[SetLoadingState
            \<lparr>lstatus = Analyzing, current = None, total = None, message = Some msg_analyzing\<rparr>,
          SetErrorMsg None,
          AnalyzeCall inputText,
          SetLoadingState
            \<lparr>lstatus = Generating, current = Some 0, total = Some ?n,
             message = Some (msg_ready ?n)\<rparr>]"
  let ?loop = "fst (generate_loop env inputText ar ?n 0 ?scenes [])"
  let ?fin = "if None \<in> set ?scenes
        then [SetErrorMsg
                (Some (if typeErrorMessage env = [] then msg_unknown else typeErrorMessage env)),
              SetLoadingState \<lparr>lstatus = Error, current = None, total = None, message = None\<rparr>]
        else [SetLoadingState \<lparr>lstatus = Done, current = None, total = None, message = None\<rparr>]"
  let ?es = "handleGenerate_effects env inputText ar"
  have es: "?es = ?a @ SetCurrentBatch [] # (?loop @ ?fin)"
    by (simp add: handleGenerate_effects_eq[OF assms])
  have a_states: "\<forall>s \<in> set (trace_states ?a st). currentBatch s = currentBatch st"
    by simp
  let ?st5 = "run_effects (?a @ [SetCurrentBatch []]) st"
  have gen5: "lstatus (loadingState ?st5) = Generating"
    by (simp add: run_effects_def)
  have loop_states: "\<forall>s \<in> set (trace_states ?loop ?st5). lstatus (loadingState s) = Generating"
    using loop_lstatus[OF gen5] by blast
  have end_in: "run_effects ?loop ?st5 \<in> set (trace_states ?loop ?st5)"
    by (rule trace_states_end)
  have fin_states: "\<forall>s \<in> set (trace_states ?fin (run_effects ?loop ?st5)).
      lstatus (loadingState s) \<noteq> Analyzing"
    using loop_states end_in by auto
  have pre_states: "\<forall>s \<in> set (trace_states (?a @ [SetCurrentBatch []]) st).
      lstatus (loadingState s) = Analyzing \<longrightarrow> currentBatch s = currentBatch st"
    by simp
  have split: "set (trace_states ?es st) =
      set (trace_states (?a @ [SetCurrentBatch []]) st)
      \<union> set (trace_states ?loop ?st5)
      \<union> set (trace_states ?fin (run_effects ?loop ?st5))"
  proof -
    have "?es = (?a @ [SetCurrentBatch []]) @ ?loop @ ?fin"
      using es by simp
    then show ?thesis
      by (simp only: set_trace_states_append run_effects_append Un_assoc)
  qed
  have c1: "\<forall>s \<in> set (trace_states ?es st).
               lstatus (loadingState s) = Analyzing \<longrightarrow> currentBatch s = currentBatch st"
    unfolding split using pre_states loop_states fin_states by auto
  have "filter (\<lambda>e. e = SetCurrentBatch []) ?loop = []"
    using loop_no_clear by (auto simp: filter_empty_conv)
  then have c2: "length (filter (\<lambda>e. e = SetCurrentBatch []) ?es) = 1"
    unfolding es by simp
  have c3: "\<exists>a c. ?es = a @ SetCurrentBatch [] # c
                 \<and> AnalyzeCall inputText \<in> set a
                 \<and> render_calls a = []
                 \<and> (\<forall>s \<in> set (trace_states a st). currentBatch s = currentBatch st)"
  proof (intro exI conjI)
    show "?es = ?a @ SetCurrentBatch [] # (?loop @ ?fin)" by (rule es)
    show "AnalyzeCall inputText \<in> set ?a" by simp
    show "render_calls ?a = []" by simp
    show "\<forall>s \<in> set (trace_states ?a st). currentBatch s = currentBatch st" by (rule a_states)
  qed
  from c1 c2 c3 show ?thesis unfolding Let_def by blast
qed


theorem C10_witness:
  "js_trim example_json \<noteq> []
   \<and> length (filter (\<lambda>e. e = SetCurrentBatch [])
        (handleGenerate_effects example_env example_json Ratio_16_9)) = 1
   \<and> (\<exists>s \<in> set (trace_states (handleGenerate_effects example_env example_json Ratio_16_9)
                   (example_state\<lparr>currentBatch := example_batch\<rparr>)).
         lstatus (loadingState s) = Analyzing \<and> currentBatch s = example_batch)"
proof -
  let ?st = "example_state\<lparr>currentBatch := example_batch\<rparr>"
  let ?es = "handleGenerate_effects example_env example_json Ratio_16_9"
  let ?e = "SetLoadingState
            \<lparr>lstatus = Analyzing, current = None, total = None, message = Some msg_analyzing\<rparr>"
  have "\<exists>rest. ?es = ?e # rest"
    using example_nonempty by (simp add: handleGenerate_effects_def Let_def)
  then obtain rest where "?es = ?e # rest" ..
  then have m: "apply_effect ?e ?st \<in> set (trace_states ?es ?st)"
    by (rule trace_states_second)
  have a: "lstatus (loadingState (apply_effect ?e ?st)) = Analyzing" by simp
  from C10_batch_cleared_once_after_analysis[OF example_nonempty, of example_env Ratio_16_9 ?st]
  have c: "(\<forall>s \<in> set (trace_states ?es ?st).
               lstatus (loadingState s) = Analyzing \<longrightarrow> currentBatch s = currentBatch ?st)"
    and d: "length (filter (\<lambda>e. e = SetCurrentBatch []) ?es) = 1"
    by (simp_all add: Let_def)
  from c m a have "currentBatch (apply_effect ?e ?st) = example_batch" by auto
  with m a d example_nonempty show ?thesis by blast
qed


text \<open>
  C7 as stated fails: a reply whose text is the empty JSON array is returned as it is, so
  the analysis yields the empty list, not the one-scene fallback, and the loop receives
  a list of length 0.
\<close>

theorem C7_counterexample:
  "analyzeScript parse_empty_array empty_array_reply (ascii ''story'') = []
   \<and> analyzeScript parse_empty_array empty_array_reply (ascii ''story'')
       \<noteq> [Some (fallback_scene (ascii ''story''))]
   \<and> \<not> 1 \<le> length (analyzeScript parse_empty_array empty_array_reply (ascii ''story''))"
proof -
  have "analyzeScript parse_empty_array empty_array_reply (ascii ''story'') = []"
    by (simp add: analyzeScript_def analyze_try_def empty_array_reply_def clean_empty_array
          parse_empty_array_def) (simp add: ascii_def)
  then show ?thesis by simp
qed

text \<open>
  C7, amended: \<^verbatim>\<open>analyzeScript\<close> returns the one-element list of the fallback scene
  (number 1, summary \<open>single_scene\<close>, prompt the input text) when the provider call
  throws, when the reply has no text or the empty text, when the cleaned text does not
  parse, and when it parses to a value that is neither an array nor an object. A parsed
  array is returned as it is and a parsed object as a one-element list; the result is
  the empty list exactly when the reply parses to the empty array.
\<close>

theorem C7_fallback_unless_array_or_object:
  "((r = Rejects
      \<or> (\<exists>t. r = Resolves (TextResponse t)
            \<and> (t = None \<or> t = Some []
                \<or> (\<exists>txt. t = Some txt
                      \<and> (p (cleanJson txt) = None \<or> p (cleanJson txt) = Some PPrimitive)))))
     \<longrightarrow> analyzeScript p r T = [Some (fallback_scene T)])
   \<and> scene_number (fallback_scene T) = 1
   \<and> korean_summary (fallback_scene T) = single_scene
   \<and> english_prompt (fallback_scene T) = T
   \<and> (\<forall>txt scenes. r = Resolves (TextResponse (Some txt)) \<and> txt \<noteq> []
          \<and> p (cleanJson txt) = Some (PArray scenes)
        \<longrightarrow> analyzeScript p r T = scenes)
   \<and> (\<forall>txt scene. r = Resolves (TextResponse (Some txt)) \<and> txt \<noteq> []
          \<and> p (cleanJson txt) = Some (PObject scene)
        \<longrightarrow> analyzeScript p r T = [Some scene])
   \<and> (analyzeScript p r T = []
        \<longleftrightarrow> (\<exists>txt. r = Resolves (TextResponse (Some txt)) \<and> txt \<noteq> []
                 \<and> p (cleanJson txt) = Some (PArray [])))"
proof -
  have a: "(r = Rejects
      \<or> (\<exists>t. r = Resolves (TextResponse t)
            \<and> (t = None \<or> t = Some []
                \<or> (\<exists>txt. t = Some txt
                      \<and> (p (cleanJson txt) = None \<or> p (cleanJson txt) = Some PPrimitive)))))
     \<longrightarrow> analyzeScript p r T = [Some (fallback_scene T)]"
    by (auto simp: analyzeScript_def analyze_try_def)
  have b: "scene_number (fallback_scene T) = 1 \<and> korean_summary (fallback_scene T) = single_scene
     \<and> english_prompt (fallback_scene T) = T"
    by (simp add: fallback_scene_def)
  have c: "\<forall>txt scenes. r = Resolves (TextResponse (Some txt)) \<and> txt \<noteq> []
          \<and> p (cleanJson txt) = Some (PArray scenes)
        \<longrightarrow> analyzeScript p r T = scenes"
    by (auto simp: analyzeScript_def analyze_try_def)
  have d: "\<forall>txt scene. r = Resolves (TextResponse (Some txt)) \<and> txt \<noteq> []
          \<and> p (cleanJson txt) = Some (PObject scene)
        \<longrightarrow> analyzeScript p r T = [Some scene]"
    by (auto simp: analyzeScript_def analyze_try_def)
  have e: "analyzeScript p r T = []
        \<longleftrightarrow> (\<exists>txt. r = Resolves (TextResponse (Some txt)) \<and> txt \<noteq> []
                 \<and> p (cleanJson txt) = Some (PArray []))"
  proof (cases r)
    case Rejects
    then show ?thesis by (simp add: analyzeScript_def analyze_try_def)
  next
    case (Resolves resp)
    then show ?thesis
      by (cases resp)
         (auto simp: analyzeScript_def analyze_try_def split: option.splits parsed.splits)
  qed
  from a b c d e show ?thesis by blast
qed

theorem C7_witness:
  "analyzeScript parse_empty_array Rejects (ascii ''story'')
     = [Some (fallback_scene (ascii ''story''))]
   \<and> english_prompt (fallback_scene (ascii ''story'')) = ascii ''story''
   \<and> example_json \<noteq> []
   \<and> parse example_env (cleanJson example_json) = Some (PArray (map Some example_scenes))
   \<and> analyzeScript (parse example_env) (Resolves (TextResponse (Some example_json))) (ascii ''story'')
       = map Some example_scenes"
proof -
  have n: "example_json \<noteq> []" by (simp add: example_json_def ascii_def)
  have q: "parse example_env (cleanJson example_json) = Some (PArray (map Some example_scenes))"
    by (simp add: example_clean example_env_def)
  note t1 = C7_fallback_unless_array_or_object[of Rejects parse_empty_array "ascii ''story''"]
  note t2 = C7_fallback_unless_array_or_object
              [of "Resolves (TextResponse (Some example_json))" "parse example_env" "ascii ''story''"]
  from t1 have "analyzeScript parse_empty_array Rejects (ascii ''story'')
      = [Some (fallback_scene (ascii ''story''))]"
    and "english_prompt (fallback_scene (ascii ''story'')) = ascii ''story''"
    by blast+
  moreover from t2 n q
  have "analyzeScript (parse example_env) (Resolves (TextResponse (Some example_json))) (ascii ''story'')
       = map Some example_scenes" by blast
  ultimately show ?thesis using n q by blast
qed

text \<open>
  C9: for a record without \<^verbatim>\<open>suggestedPrompt\<close>, \<^verbatim>\<open>handleRetry\<close> with
  \<^verbatim>\<open>useSuggestion = true\<close> selects \<^verbatim>\<open>refinedPrompt\<close> as with \<^verbatim>\<open>false\<close>: when the id is
  not in flight, the one render call of either is made with the record's
  \<^verbatim>\<open>refinedPrompt\<close> and \<^verbatim>\<open>aspectRatio\<close> (and neither makes a call when it is); and for
  the same renderer reply and time the two have the same effects and the same resulting
  state, the success record carrying \<^verbatim>\<open>refinedPrompt\<close> unchanged.
\<close>

theorem C9_no_suggestion_retry_same:
  assumes "suggestedPrompt item = None"
  shows "promptToUse item True = refinedPrompt item
       \<and> promptToUse item False = refinedPrompt item
       \<and> render_calls (handleRetry_effects st item True r now)
           = (if id' item \<in> retryingIds st then [] else [(refinedPrompt item, aspectRatio item)])
       \<and> render_calls (handleRetry_effects st item False r now)
           = (if id' item \<in> retryingIds st then [] else [(refinedPrompt item, aspectRatio item)])
       \<and> retry_begin st item True = retry_begin st item False
       \<and> retry_end item True r now = retry_end item False r now
       \<and> (\<forall>url. generateImage r = Some url \<and> id' item \<notin> retryingIds st \<longrightarrow>
             PrependHistory (successItem item url (refinedPrompt item) now)
               \<in> set (handleRetry_effects st item True r now))
       \<and> handleRetry_effects st item True r now = handleRetry_effects st item False r now
       \<and> handleRetry item True r now st = handleRetry item False r now st"
proof -
  from assms have t: "promptToUse item True = refinedPrompt item"
    and f: "promptToUse item False = refinedPrompt item"
    by (simp_all add: promptToUse_def)
  have b: "retry_begin st item True = retry_begin st item False"
    by (simp add: retry_begin_def t f)
  have e: "retry_end item True r now = retry_end item False r now"
    by (simp add: retry_end_def t f split: option.splits)
  have eff: "handleRetry_effects st item True r now = handleRetry_effects st item False r now"
    by (simp add: handleRetry_effects_def b e)
  then have same: "handleRetry item True r now st = handleRetry item False r now st"
    by (simp add: handleRetry_def)
  have rc: "render_calls (handleRetry_effects st item u r now)
           = (if id' item \<in> retryingIds st then [] else [(promptToUse item u, aspectRatio item)])"
    for u
    by (simp add: handleRetry_effects_def retry_begin_def retry_end_def render_calls_append
          split: option.splits)
  have p: "\<forall>url. generateImage r = Some url \<and> id' item \<notin> retryingIds st \<longrightarrow>
             PrependHistory (successItem item url (refinedPrompt item) now)
               \<in> set (handleRetry_effects st item True r now)"
    by (auto simp: handleRetry_effects_def retry_begin_def retry_end_def t)
  show ?thesis
    using t f b e eff same p rc[of True] rc[of False] by simp
qed

theorem C9_witness:
  "suggestedPrompt example_unsuggested = None
   \<and> id' example_unsuggested \<notin> retryingIds example_state
   \<and> promptToUse example_unsuggested True = ascii ''p2''
   \<and> render_calls (handleRetry_effects example_state example_unsuggested True image_reply 5)
       = [(ascii ''p2'', Ratio_16_9)]
   \<and> render_calls (handleRetry_effects example_state example_unsuggested False image_reply 5)
       = [(ascii ''p2'', Ratio_16_9)]
   \<and> handleRetry example_unsuggested True image_reply 5 example_state
       = handleRetry example_unsuggested False image_reply 5 example_state"
proof -
  have h: "suggestedPrompt example_unsuggested = None"
    by (simp add: example_unsuggested_def failedImage_def)
  have p: "refinedPrompt example_unsuggested = ascii ''p2''"
    "aspectRatio example_unsuggested = Ratio_16_9"
    by (simp_all add: example_unsuggested_def failedImage_def)
  have g: "id' example_unsuggested \<notin> retryingIds example_state"
    by (simp add: example_state_def)
  from C9_no_suggestion_retry_same[OF h, of example_state image_reply 5] h p g
  show ?thesis by simp
qed

text \<open>
  C3 as stated fails: \<^verbatim>\<open>handleRetry\<close> prepends the success record to the history
  whether or not the id is there. In the run below the failed second scene is retried
  with success while the third scene is rendering; the run then shows its own stale
  failed record again, and a second successful retry leaves two history records with
  the same id.
\<close>

theorem C3_counterexample:
  "last (take 17 scenario_effects) = RenderCall (ascii ''p3'') Ratio_16_9
   \<and> example_failed \<in> set (currentBatch scenario1)
   \<and> count_list (map id' (history scenario1)) (id' example_failed) = 0
   \<and> count_list (map id' (history scenario2)) (id' example_failed) = 1
   \<and> lstatus (loadingState scenario3) = Done
   \<and> example_failed \<in> set (currentBatch scenario3)
   \<and> id' example_failed \<notin> retryingIds scenario3
   \<and> count_list (map id' (history scenario3)) (id' example_failed) = 1
   \<and> count_list (map id' (history scenario4)) (id' example_failed) = 2"
proof -
  have i0: "id' (example_batch ! 0) \<noteq> id' example_failed"
    and i2: "id' (example_batch ! 2) \<noteq> id' example_failed"
    and i3: "id' (example_batch ! 3) \<noteq> id' example_failed"
    by (simp_all add: example_batch_def example_failed_def newImage_def failedImage_def mk_id_eq)
  have m: "example_failed \<in> set example_batch" "example_failed \<in> set (take 2 example_batch)"
    by (simp_all add: example_batch_def)
  have g: "id' example_failed \<notin> retryingIds scenario3" using scenario3_facts by simp
  have h4: "map id' (history scenario4) = id' example_failed # map id' (history scenario3)"
    unfolding scenario4_def
    using handleRetry_success(2)[OF g image_reply_ok, of False 1700000030000]
    by (simp add: successItem_def)
  show ?thesis
    using scenario1_facts scenario2_facts scenario3_facts i0 i2 i3 m
    by (simp add: h4)
qed

text \<open>
  C3, amended: a successful retry of a record whose id is not in \<^verbatim>\<open>retryingIds\<close>
  replaces, in the live batch view, each record of that id by the success record (same
  id, status success, the returned image, \<^verbatim>\<open>refinedPrompt\<close> the prompt used,
  \<^verbatim>\<open>timestamp\<close> the current time), leaving the ids of the view and their order unchanged,
  and prepends the success record to the history: the history then holds one more record
  of that id than before, exactly one if it held none.
\<close>

theorem C3_retry_replaces_and_prepends:
  assumes "id' item \<notin> retryingIds st" and "generateImage r = Some url"
  shows "let s = successItem item url (promptToUse item u) now;
             st' = handleRetry item u r now st
         in currentBatch st' = map (\<lambda>img. if id' img = id' item then s else img) (currentBatch st)
          \<and> map id' (currentBatch st') = map id' (currentBatch st)
          \<and> id' s = id' item \<and> status s = Success \<and> imageUrl s = url
          \<and> refinedPrompt s = promptToUse item u \<and> timestamp s = now
          \<and> history st' = s # history st
          \<and> count_list (map id' (history st')) (id' item)
              = Suc (count_list (map id' (history st)) (id' item))
          \<and> (count_list (map id' (history st)) (id' item) = 0
               \<longrightarrow> count_list (map id' (history st')) (id' item) = 1)"
proof -
  let ?s = "successItem item url (promptToUse item u) now"
  have s: "id' ?s = id' item" "status ?s = Success" "imageUrl ?s = url"
    "refinedPrompt ?s = promptToUse item u" "timestamp ?s = now"
    by (simp_all add: successItem_def)
  note r = handleRetry_success[OF assms, of u now]
  have ids: "map id' (currentBatch (handleRetry item u r now st)) = map id' (currentBatch st)"
    unfolding r(1) by (simp add: s(1) comp_def)
  show ?thesis
    unfolding Let_def using r(1) r(2) ids s by simp
qed

theorem C3_witness:
  "id' example_failed \<notin> retryingIds scenario1
   \<and> generateImage image_reply = Some (ascii ''data:image/png;base64,iVBORw0KGgo='')
   \<and> count_list (map id' (history scenario1)) (id' example_failed) = 0
   \<and> count_list (map id' (history scenario2)) (id' example_failed) = 1
   \<and> map id' (currentBatch scenario2) = map id' (currentBatch scenario1)"
proof -
  have g: "id' example_failed \<notin> retryingIds scenario1" using scenario1_facts by simp
  have i0: "id' (example_batch ! 0) \<noteq> id' example_failed"
    by (simp add: example_batch_def example_failed_def newImage_def failedImage_def mk_id_eq)
  have z: "count_list (map id' (history scenario1)) (id' example_failed) = 0"
    using scenario1_facts i0 by simp
  from C3_retry_replaces_and_prepends[OF g image_reply_ok, of False 1700000009000] z
  have "count_list (map id' (history scenario2)) (id' example_failed) = 1"
    and "map id' (currentBatch scenario2) = map id' (currentBatch scenario1)"
    unfolding scenario2_def Let_def by simp_all
  with g z image_reply_ok show ?thesis by simp
qed

text \<open>
  C6 as stated fails: after a successful retry with the suggested prompt, the record
  keeps its \<^verbatim>\<open>suggestedPrompt\<close> and has the same text as \<^verbatim>\<open>refinedPrompt\<close>.
\<close>

theorem C6_counterexample:
  "currentBatch (handleGenerate example_env example_json Ratio_16_9 example_state) ! 1
     = example_failed
   \<and> status example_failed = Failed
   \<and> suggestedPrompt example_failed = Some (ascii ''a calm village scene'')
   \<and> refinedPrompt example_failed = ascii ''p2''
   \<and> generateImage image_reply = Some (ascii ''data:image/png;base64,iVBORw0KGgo='')
   \<and> status (currentBatch example_suggested_retry ! 1) = Success
   \<and> suggestedPrompt (currentBatch example_suggested_retry ! 1)
       = Some (ascii ''a calm village scene'')
   \<and> refinedPrompt (currentBatch example_suggested_retry ! 1) = ascii ''a calm village scene''
   \<and> \<not> suggestion_differs (currentBatch example_suggested_retry ! 1)"
proof -
  have f: "status example_failed = Failed"
    "suggestedPrompt example_failed = Some (ascii ''a calm village scene'')"
    "refinedPrompt example_failed = ascii ''p2''"
    by (simp_all add: example_failed_def failedImage_def) (simp add: ascii_def)
  have b: "currentBatch (handleGenerate example_env example_json Ratio_16_9 example_state) ! 1
     = example_failed"
    by (simp add: example_currentBatch example_batch_def)
  have g: "id' example_failed \<notin> retryingIds (example_state\<lparr>currentBatch := example_batch\<rparr>)"
    by (simp add: example_state_def)
  have i0: "id' (example_batch ! 0) \<noteq> id' example_failed"
    by (simp add: example_batch_def example_failed_def newImage_def failedImage_def mk_id_eq)
  have p: "promptToUse example_failed True = ascii ''a calm village scene''"
    by (simp add: promptToUse_def f) (simp add: ascii_def)
  have c: "currentBatch example_suggested_retry ! 1 =
      successItem example_failed (ascii ''data:image/png;base64,iVBORw0KGgo='')
        (ascii ''a calm village scene'') 1700000030000"
    unfolding example_suggested_retry_def
      handleRetry_success(1)[OF g image_reply_ok, of True 1700000030000] p
    using i0 by (simp add: example_batch_def)
  show ?thesis
    unfolding c using f b image_reply_ok
    by (simp add: successItem_def suggestion_differs_def)
qed

text \<open>
  C6, amended: every record that \<^verbatim>\<open>handleGenerate\<close> writes has no \<^verbatim>\<open>suggestedPrompt\<close>
  or one that differs from \<^verbatim>\<open>refinedPrompt\<close>; this holds of all records of the state
  after \<^verbatim>\<open>handleGenerate\<close>, \<^verbatim>\<open>handleDelete\<close>, \<^verbatim>\<open>handleSelectHistoryItem\<close>, a failed
  retry, a retry with the original prompt and a retry of a record without suggestion,
  if it held before (and of the item passed in). A successful retry with a non-empty
  suggested prompt puts into the state a record whose \<^verbatim>\<open>suggestedPrompt\<close> equals its
  \<^verbatim>\<open>refinedPrompt\<close>.
\<close>

theorem C6_suggestion_differs_except_after_suggested_retry:
  "(\<forall>e \<in> set (handleGenerate_effects env inputText ar). \<forall>x \<in> set (emitted e).
       suggestion_differs x)
   \<and> ((\<forall>x \<in> records st. suggestion_differs x)
        \<longrightarrow> (\<forall>x \<in> records (handleGenerate env inputText ar st). suggestion_differs x))
   \<and> ((\<forall>x \<in> records st. suggestion_differs x)
        \<longrightarrow> (\<forall>x \<in> records (handleDelete i st). suggestion_differs x))
   \<and> ((\<forall>x \<in> records st. suggestion_differs x) \<and> suggestion_differs item
        \<longrightarrow> (\<forall>x \<in> records (handleSelectHistoryItem item st). suggestion_differs x))
   \<and> ((\<forall>x \<in> records st. suggestion_differs x) \<and> generateImage r = None
        \<longrightarrow> (\<forall>x \<in> records (handleRetry item u r now st). suggestion_differs x))
   \<and> ((\<forall>x \<in> records st. suggestion_differs x) \<and> suggestion_differs item
        \<longrightarrow> (\<forall>x \<in> records (handleRetry item False r now st). suggestion_differs x))
   \<and> ((\<forall>x \<in> records st. suggestion_differs x) \<and> suggestion_differs item
          \<and> suggestedPrompt item = None
        \<longrightarrow> (\<forall>x \<in> records (handleRetry item True r now st). suggestion_differs x))
   \<and> (id' item \<notin> retryingIds st \<and> generateImage r = Some url
          \<and> suggestedPrompt item = Some s \<and> s \<noteq> []
        \<longrightarrow> successItem item url s now \<in> records (handleRetry item True r now st)
            \<and> suggestedPrompt (successItem item url s now)
                = Some (refinedPrompt (successItem item url s now)))"
proof -
  have a: "\<forall>e \<in> set (handleGenerate_effects env inputText ar). \<forall>x \<in> set (emitted e).
       suggestion_differs x"
    using handleGenerate_emitted batch_results_suggestion by blast
  have f: "promptToUse item False = refinedPrompt item"
    by (simp add: promptToUse_def split: option.splits)
  have t: "suggestedPrompt item = None \<Longrightarrow> promptToUse item True = refinedPrompt item"
    by (simp add: promptToUse_def)
  have h: "id' item \<notin> retryingIds st \<and> generateImage r = Some url
          \<and> suggestedPrompt item = Some s \<and> s \<noteq> []
        \<longrightarrow> successItem item url s now \<in> records (handleRetry item True r now st)
            \<and> suggestedPrompt (successItem item url s now)
                = Some (refinedPrompt (successItem item url s now))"
  proof (intro impI, elim conjE)
    assume p: "id' item \<notin> retryingIds st" "generateImage r = Some url"
      "suggestedPrompt item = Some s" "s \<noteq> []"
    then have q: "promptToUse item True = s" by (simp add: promptToUse_def)
    from suggested_retry_breaks[OF p, of now]
    show "successItem item url s now \<in> records (handleRetry item True r now st)
            \<and> suggestedPrompt (successItem item url s now)
                = Some (refinedPrompt (successItem item url s now))"
      unfolding q by (simp add: suggestion_differs_def)
  qed
  have b: "(\<forall>x \<in> records st. suggestion_differs x)
        \<longrightarrow> (\<forall>x \<in> records (handleGenerate env inputText ar st). suggestion_differs x)"
    using generate_keeps_suggestion by (intro impI)
  have c: "(\<forall>x \<in> records st. suggestion_differs x)
        \<longrightarrow> (\<forall>x \<in> records (handleDelete i st). suggestion_differs x)"
    using delete_keeps_suggestion by (intro impI)
  have d: "(\<forall>x \<in> records st. suggestion_differs x) \<and> suggestion_differs item
        \<longrightarrow> (\<forall>x \<in> records (handleSelectHistoryItem item st). suggestion_differs x)"
    using select_keeps_suggestion by (intro impI, elim conjE)
  have e: "(\<forall>x \<in> records st. suggestion_differs x) \<and> generateImage r = None
        \<longrightarrow> (\<forall>x \<in> records (handleRetry item u r now st). suggestion_differs x)"
    using failed_retry_keeps_suggestion by (intro impI, elim conjE)
  have g: "(\<forall>x \<in> records st. suggestion_differs x) \<and> suggestion_differs item
        \<longrightarrow> (\<forall>x \<in> records (handleRetry item False r now st). suggestion_differs x)"
    using plain_retry_keeps_suggestion[OF _ _ f] by (intro impI, elim conjE)
  have k: "(\<forall>x \<in> records st. suggestion_differs x) \<and> suggestion_differs item
          \<and> suggestedPrompt item = None
        \<longrightarrow> (\<forall>x \<in> records (handleRetry item True r now st). suggestion_differs x)"
    using plain_retry_keeps_suggestion[OF _ _ t] by (intro impI, elim conjE)
  show ?thesis
    by (intro conjI) (rule a b c d e g k h)+
qed

theorem C6_witness:
  "example_failed \<in> set (emitted (SetCurrentBatch (take 2 example_batch)))
   \<and> SetCurrentBatch (take 2 example_batch)
        \<in> set (handleGenerate_effects example_env example_json Ratio_16_9)
   \<and> suggestion_differs example_failed
   \<and> suggestedPrompt example_failed = Some (ascii ''a calm village scene'')"
proof -
  have m: "example_failed \<in> set (emitted (SetCurrentBatch (take 2 example_batch)))"
    by (simp add: example_batch_def)
  have e: "SetCurrentBatch (take 2 example_batch)
        \<in> set (handleGenerate_effects example_env example_json Ratio_16_9)"
    using scenario_effects_split unfolding scenario_effects_def by simp
  have s: "suggestedPrompt example_failed = Some (ascii ''a calm village scene'')"
    by (simp add: example_failed_def failedImage_def) (simp add: ascii_def)
  have "\<forall>e \<in> set (handleGenerate_effects example_env example_json Ratio_16_9).
          \<forall>x \<in> set (emitted e). suggestion_differs x"
    by (rule C6_suggestion_differs_except_after_suggested_retry
               [of example_env example_json Ratio_16_9, THEN conjunct1])
  with m e have "suggestion_differs example_failed" by blast
  with m e s show ?thesis by simp
qed


text \<open>
  C8: when the id of the item is in \<^verbatim>\<open>retryingIds\<close>, a retry request does nothing: no
  effect, no render call, the same state. From a state without retries in flight, after
  any sequence of retry requests and render-call returns, the ids of the retries in
  flight are pairwise distinct and are exactly the ids in \<^verbatim>\<open>retryingIds\<close>. The end of a
  retry removes the id from \<^verbatim>\<open>retryingIds\<close> whether the render call succeeded or failed,
  so after a whole retry the item can be retried again.
\<close>

theorem C8_retry_guard:
  "(id' item \<in> retryingIds (app s) \<longrightarrow>
       retry_begin (app s) item useSuggestion = [] \<and> step (RetryRequest item useSuggestion) s = s
       \<and> handleRetry item useSuggestion r now (app s) = app s)
   \<and> (let s' = run_events evs (initial_sys st)
      in distinct (inflight_ids s') \<and> retryingIds (app s') = set (inflight_ids s'))
   \<and> id' item \<notin> retryingIds (run_effects (retry_end item useSuggestion r now) st)
   \<and> (id' item \<notin> retryingIds st \<longrightarrow>
        id' item \<notin> retryingIds (handleRetry item useSuggestion r now st)
        \<and> retry_begin (handleRetry item useSuggestion r now st) item useSuggestion' \<noteq> [])"
proof -
  have a: "id' item \<in> retryingIds (app s) \<longrightarrow>
       retry_begin (app s) item useSuggestion = [] \<and> step (RetryRequest item useSuggestion) s = s
       \<and> handleRetry item useSuggestion r now (app s) = app s"
    by (simp add: retry_begin_empty handleRetry_guarded)
  have b: "let s' = run_events evs (initial_sys st)
      in distinct (inflight_ids s') \<and> retryingIds (app s') = set (inflight_ids s')"
    using run_events_guard_inv[OF initial_guard_inv, of evs st]
    by (simp add: guard_inv_def Let_def)
  have c: "id' item \<notin> retryingIds (run_effects (retry_end item useSuggestion r now) st)"
    by (simp add: retry_end_retryingIds)
  have d: "id' item \<notin> retryingIds st \<longrightarrow>
        id' item \<notin> retryingIds (handleRetry item useSuggestion r now st)
        \<and> retry_begin (handleRetry item useSuggestion r now st) item useSuggestion' \<noteq> []"
    by (simp add: retry_begin_empty handleRetry_def handleRetry_effects_def run_effects_append
          retry_end_retryingIds)
  show ?thesis by (intro conjI) (rule a b c d)+
qed

theorem C8_witness:
  "id' example_failed \<in> retryingIds (app example_inflight)
   \<and> step (RetryRequest example_failed True) example_inflight = example_inflight
   \<and> id' example_failed \<notin> retryingIds example_state
   \<and> id' example_failed \<notin> retryingIds (handleRetry example_failed False Rejects 0 example_state)
   \<and> retry_begin (handleRetry example_failed False Rejects 0 example_state) example_failed True
       \<noteq> []"
proof -
  have i: "id' example_failed \<in> retryingIds (app example_inflight)"
    by (simp add: example_inflight_def initial_sys_def retry_begin_def run_effects_def)
  have n: "id' example_failed \<notin> retryingIds example_state"
    by (simp add: example_state_def)
  note t = C8_retry_guard[of example_failed example_inflight True Rejects 0 "[]" example_state]
  note u = C8_retry_guard[of example_failed example_inflight False Rejects 0 "[]" example_state True]
  from t i have "step (RetryRequest example_failed True) example_inflight = example_inflight"
    by simp
  moreover from u n
  have "id' example_failed \<notin> retryingIds (handleRetry example_failed False Rejects 0 example_state)
      \<and> retry_begin (handleRetry example_failed False Rejects 0 example_state) example_failed True
       \<noteq> []"
    by simp
  ultimately show ?thesis using i n by simp
qed

text \<open>
  C2 fails on the code for a batch of eleven scenes: \<^verbatim>\<open>handleSelectHistoryItem\<close> sorts
  the records of the batch by \<^verbatim>\<open>a.id.localeCompare(b.id)\<close>, a comparison of strings, so
  the id ending in \<open>_10\<close> comes before the id ending in \<open>_2\<close>. The live batch view of the
  run lists the scenes in the order 0, 1, ..., 10 of their indices; the view rebuilt from
  the history lists them in the order 0, 1, 10, 2, ..., 9.
\<close>

theorem C2_eleven_scenes_out_of_order:
  "map (\<lambda>x. suffix_index (id' x)) (currentBatch eleven_state)
     = [0, 1, 2, 3, 4, 5, 6, 7, 8, 9, 10]
   \<and> length (history eleven_state) = 11
   \<and> map (\<lambda>x. suffix_index (id' x))
        (currentBatch (handleSelectHistoryItem (hd (history eleven_state)) eleven_state))
      = [0, 1, 10, 2, 3, 4, 5, 6, 7, 8, 9]"
proof -
  let ?B = "batch_results eleven_env eleven_json Ratio_16_9 0 eleven_scenes"
  let ?b = "decimal (startTime eleven_env)"
  have n: "length eleven_scenes = 11" by (simp add: eleven_scenes_def)
  have len: "length ?B = 11" by (simp add: batch_results_length n)
  have ids: "map id' ?B = map (mk_id ?b) [0..<11]"
    using batch_results_ids[of eleven_env eleven_json Ratio_16_9 0 eleven_scenes] by (simp add: n)
  have u: "[0..<11] = [0, 1, 2, 3, 4, 5, 6, 7, 8, 9, 10]" by code_simp
  have live: "map (\<lambda>x. suffix_index (id' x)) ?B = [0, 1, 2, 3, 4, 5, 6, 7, 8, 9, 10]"
  proof -
    have "map (\<lambda>x. suffix_index (id' x)) ?B = map suffix_index (map id' ?B)" by simp
    also have "\<dots> = map (\<lambda>i. i) [0..<11]"
      unfolding ids by (simp add: suffix_index_mk_id comp_def)
    finally show ?thesis by (simp add: u)
  qed
  have ne: "?B \<noteq> []" using len by auto
  then have "hd (rev ?B) \<in> set ?B" by (simp add: hd_rev)
  then have bid: "batchId (hd (rev ?B)) = Some ?b" by (rule batch_results_batchId)
  have all: "filter (\<lambda>h. batchId h = Some ?b) (rev ?B) = rev ?B"
    using batch_results_batchId[of _ eleven_env eleven_json Ratio_16_9 0 eleven_scenes]
    by (simp add: filter_id_conv)
  have sel: "currentBatch (handleSelectHistoryItem (hd (history eleven_state)) eleven_state)
      = sort_by (\<lambda>a b. localeCompare (id' a) (id' b)) ?B"
    by (simp add: handleSelectHistoryItem_def Let_def eleven_batch bid all len decimal_nonempty)
  have "map (\<lambda>x. suffix_index (id' x)) (sort_by (\<lambda>a b. localeCompare (id' a) (id' b)) ?B)
      = map suffix_index (map id' (sort_by (\<lambda>a b. localeCompare (id' a) (id' b)) ?B))"
    by simp
  also have "\<dots> = map suffix_index (sort_by localeCompare (map (mk_id ?b) [0..<11]))"
    by (simp only: sort_by_map ids)
  also have "\<dots> = [0, 1, 10, 2, 3, 4, 5, 6, 7, 8, 9]" by (rule eleven_ids_sorted)
  finally have c3: "map (\<lambda>x. suffix_index (id' x))
        (currentBatch (handleSelectHistoryItem (hd (history eleven_state)) eleven_state))
      = [0, 1, 10, 2, 3, 4, 5, 6, 7, 8, 9]"
    unfolding sel .
  have c1: "map (\<lambda>x. suffix_index (id' x)) (currentBatch eleven_state)
     = [0, 1, 2, 3, 4, 5, 6, 7, 8, 9, 10]"
    using live by (simp add: eleven_batch)
  have c2: "length (history eleven_state) = 11"
    using len by (simp add: eleven_batch)
  from c1 c2 c3 show ?thesis by (intro conjI)
qed

end
